theory Spec2Isabelle
  imports Main "HOL-Library.Sublist" "HOL-Library.Char_ord" "HOL-Library.List_Lexorder"
    "HOL-Library.Multiset"
begin

section \<open>Python values and exceptions\<close>

text \<open>
  The evaluation script \<^verbatim>\<open>practicum/evaluate.py\<close> works on what \<^verbatim>\<open>json.load\<close>
  returns: \<^verbatim>\<open>None\<close>, booleans, integers, floats, strings, lists and dictionaries
  with string keys. A dictionary is an association list read with \<open>map_of\<close>; a loaded
  dictionary has distinct keys. Python integers are unbounded (\<open>int\<close>). A Python
  string is a \<open>string\<close>, one \<open>char\<close> per character (code points below 256).
  Floats are kept abstract (the type parameter \<open>'f\<close>): what the interpreter computes on
  them is a parameter of the model, see \<open>python\<close> below.
\<close>

datatype 'f json =
    JNull
  | JBool bool
  | JInt int
  | JFloat 'f
  | JStr string
  | JArr "'f json list"
  | JObj "(string \<times> 'f json) list"

text \<open>An exception is a value; \<^verbatim>\<open>sys.exit(n)\<close> raises \<open>SystemExit n\<close>.\<close>

datatype pyerror =
    KeyError
  | TypeError
  | ValueError
  | IndexError
  | AttributeError
  | OverflowError
  | FileNotFoundError
  | JSONDecodeError
  | OSError
  | SystemExit int

type_synonym 'a result = "pyerror + 'a"

definition and_then :: "'a result \<Rightarrow> ('a \<Rightarrow> 'b result) \<Rightarrow> 'b result" where
  "and_then m f = (case m of Inl e \<Rightarrow> Inl e | Inr x \<Rightarrow> f x)"

text \<open>Evaluating \<open>f\<close> on the elements from left to right, stopping at the first exception.\<close>

fun traverse :: "('a \<Rightarrow> 'b result) \<Rightarrow> 'a list \<Rightarrow> 'b list result" where
  "traverse f [] = Inr []"
| "traverse f (x # xs) =
     and_then (f x) (\<lambda>y. and_then (traverse f xs) (\<lambda>ys. Inr (y # ys)))"

text \<open>
  The standard-library and interpreter behaviour the script relies on and this file does
  not define: the path component of \<^verbatim>\<open>urllib.parse.urlparse\<close> on a string, arithmetic,
  equality and truth of floats, \<^verbatim>\<open>str\<close> of a float, list or dictionary, and
  \<^verbatim>\<open>list.sort\<close> on keys that are not all strings (given the keys paired with the rows).
\<close>

record 'f python =
  urlparse_path :: "string \<Rightarrow> string result"
  float_add :: "'f json \<Rightarrow> 'f json \<Rightarrow> 'f json result"
  float_eq :: "'f json \<Rightarrow> 'f json \<Rightarrow> bool"
  float_truthy :: "'f \<Rightarrow> bool"
  repr_value :: "'f json \<Rightarrow> string"
  sort_other :: "('f json \<times> 'f json list) list \<Rightarrow> 'f json list list result"

subsection \<open>Operators of the language\<close>

text \<open>\<^verbatim>\<open>bool\<close> is a subclass of \<^verbatim>\<open>int\<close>: \<^verbatim>\<open>True\<close> is 1 as a number and as an index.\<close>

fun int_like :: "'f json \<Rightarrow> int option" where
  "int_like (JInt n) = Some n"
| "int_like (JBool b) = Some (if b then 1 else 0)"
| "int_like _ = None"

fun is_float :: "'f json \<Rightarrow> bool" where
  "is_float (JFloat _) = True"
| "is_float _ = False"

definition is_number :: "'f json \<Rightarrow> bool" where
  "is_number v = (int_like v \<noteq> None \<or> is_float v)"

fun truthy :: "'f python \<Rightarrow> 'f json \<Rightarrow> bool" where
  "truthy py JNull = False"
| "truthy py (JBool b) = b"
| "truthy py (JInt n) = (n \<noteq> 0)"
| "truthy py (JFloat x) = float_truthy py x"
| "truthy py (JStr s) = (s \<noteq> [])"
| "truthy py (JArr xs) = (xs \<noteq> [])"
| "truthy py (JObj kvs) = (kvs \<noteq> [])"

text \<open>\<^verbatim>\<open>xs[i]\<close> on a sequence: a negative index counts from the end.\<close>

definition seq_index :: "'a list \<Rightarrow> int \<Rightarrow> 'a result" where
  "seq_index xs i =
     (if 0 \<le> i \<and> i < int (length xs) then Inr (xs ! nat i)
      else if i < 0 \<and> - int (length xs) \<le> i then Inr (xs ! nat (int (length xs) + i))
      else Inl IndexError)"

text \<open>
  \<^verbatim>\<open>c[k]\<close>. A dictionary raises KeyError on a missing key and TypeError on an
  unhashable one (its keys are strings, so no other key is found); a list or string
  takes integer indices; nothing else can be subscripted.
\<close>

fun getitem :: "'f json \<Rightarrow> 'f json \<Rightarrow> 'f json result" where
  "getitem (JObj kvs) (JStr k) = (case map_of kvs k of None \<Rightarrow> Inl KeyError | Some v \<Rightarrow> Inr v)"
| "getitem (JObj kvs) (JArr _) = Inl TypeError"
| "getitem (JObj kvs) (JObj _) = Inl TypeError"
| "getitem (JObj kvs) _ = Inl KeyError"
| "getitem (JArr xs) k = (case int_like k of None \<Rightarrow> Inl TypeError | Some i \<Rightarrow> seq_index xs i)"
| "getitem (JStr s) k =
     (case int_like k of None \<Rightarrow> Inl TypeError
      | Some i \<Rightarrow> and_then (seq_index s i) (\<lambda>c. Inr (JStr [c])))"
| "getitem _ _ = Inl TypeError"

text \<open>\<^verbatim>\<open>s in t\<close> on strings: \<open>s\<close> occurs in \<open>t\<close> as a contiguous run of characters.\<close>

fun substring :: "string \<Rightarrow> string \<Rightarrow> bool" where
  "substring s [] = (s = [])"
| "substring s (c # cs) = (prefix s (c # cs) \<or> substring s cs)"

text \<open>
  \<^verbatim>\<open>s in c\<close> for a string \<open>s\<close>: substring test on a string, membership in a list,
  key membership in a dictionary, TypeError on anything else.
\<close>

fun contains :: "string \<Rightarrow> 'f json \<Rightarrow> bool result" where
  "contains s (JStr t) = Inr (substring s t)"
| "contains s (JArr xs) = Inr (JStr s \<in> set xs)"
| "contains s (JObj kvs) = Inr (s \<in> set (map fst kvs))"
| "contains s _ = Inl TypeError"

text \<open>Iterating: a list yields its elements, a dictionary its keys, a string its characters.\<close>

fun iter :: "'f json \<Rightarrow> 'f json list result" where
  "iter (JArr xs) = Inr xs"
| "iter (JObj kvs) = Inr (map (\<lambda>kv. JStr (fst kv)) kvs)"
| "iter (JStr s) = Inr (map (\<lambda>c. JStr [c]) s)"
| "iter _ = Inl TypeError"

text \<open>
  \<^verbatim>\<open>a + b\<close>: integers (and booleans) add exactly, strings and lists concatenate, an
  addition of numbers with a float in it is the interpreter's, anything else is a TypeError.
\<close>

definition py_add :: "'f python \<Rightarrow> 'f json \<Rightarrow> 'f json \<Rightarrow> 'f json result" where
  "py_add py a b =
     (case (int_like a, int_like b) of
        (Some x, Some y) \<Rightarrow> Inr (JInt (x + y))
      | _ \<Rightarrow>
        if is_number a \<and> is_number b then float_add py a b
        else (case (a, b) of
                (JStr s, JStr t) \<Rightarrow> Inr (JStr (s @ t))
              | (JArr xs, JArr ys) \<Rightarrow> Inr (JArr (xs @ ys))
              | _ \<Rightarrow> Inl TypeError))"

text \<open>\<^verbatim>\<open>a == b\<close> on hashable values: numbers compare by value, \<^verbatim>\<open>True == 1\<close>.\<close>

definition py_eq :: "'f python \<Rightarrow> 'f json \<Rightarrow> 'f json \<Rightarrow> bool" where
  "py_eq py a b =
     (case (int_like a, int_like b) of
        (Some x, Some y) \<Rightarrow> x = y
      | _ \<Rightarrow> if is_float a \<or> is_float b then float_eq py a b else a = b)"

fun hashable :: "'f json \<Rightarrow> bool" where
  "hashable (JArr _) = False"
| "hashable (JObj _) = False"
| "hashable _ = True"

text \<open>
  A Python set is kept as the list of its elements, no two of them equal; adding an
  unhashable value raises TypeError.
\<close>

definition set_add :: "'f python \<Rightarrow> 'f json \<Rightarrow> 'f json list \<Rightarrow> 'f json list result" where
  "set_add py v s =
     (if \<not> hashable v then Inl TypeError
      else if list_ex (py_eq py v) s then Inr s
      else Inr (s @ [v]))"

text \<open>\<^verbatim>\<open>str(n)\<close> of an integer: decimal digits, with a minus sign when negative.\<close>

definition digit_char :: "nat \<Rightarrow> char" where
  "digit_char d = ''0123456789'' ! d"

fun str_nat :: "nat \<Rightarrow> string" where
  "str_nat n = (if n < 10 then [digit_char n] else str_nat (n div 10) @ [digit_char (n mod 10)])"

declare str_nat.simps [simp del]

definition str_int :: "int \<Rightarrow> string" where
  "str_int i = (if i < 0 then CHR ''-'' # str_nat (nat (- i)) else str_nat (nat i))"

fun py_str :: "'f python \<Rightarrow> 'f json \<Rightarrow> string" where
  "py_str py (JStr s) = s"
| "py_str py (JInt n) = str_int n"
| "py_str py (JBool b) = (if b then ''True'' else ''False'')"
| "py_str py JNull = ''None''"
| "py_str py v = repr_value py v"

text \<open>\<^verbatim>\<open>s.split(sep)\<close> for a one-character separator: never empty, \<^verbatim>\<open>"".split("/") == [""]\<close>.\<close>

fun split_on :: "char \<Rightarrow> string \<Rightarrow> string list" where
  "split_on sep [] = [[]]"
| "split_on sep (c # cs) =
     (if c = sep then [] # split_on sep cs
      else (case split_on sep cs of [] \<Rightarrow> [[c]] | w # ws \<Rightarrow> (c # w) # ws))"

text \<open>
  \<^verbatim>\<open>v[:n]\<close>: a string or a list is cut to its first \<open>n\<close> elements (all of them when
  it has fewer); a dictionary and the scalars raise.
\<close>

fun slice_to :: "nat \<Rightarrow> 'f json \<Rightarrow> 'f json result" where
  "slice_to n (JStr s) = Inr (JStr (take n s))"
| "slice_to n (JArr xs) = Inr (JArr (take n xs))"
| "slice_to n _ = Inl TypeError"

section \<open>Constants of the script\<close>

definition ROLE_METAVARIABLES :: "string list" where
  "ROLE_METAVARIABLES = [''$AUTHZ'', ''$...AUTHZ'']"

definition JS_TS_LANGUAGE :: string where
  "JS_TS_LANGUAGE = ''JavaScript/TypeScript''"

definition SHORT_HASH_LEN :: nat where
  "SHORT_HASH_LEN = 7"

section \<open>The result processor\<close>

text \<open>
  \<^verbatim>\<open>get_org_repo(url)\<close>: the path of the parsed URL is split at \<^verbatim>\<open>"/"\<close> and
  unpacked into exactly three parts, of which the last two are returned; any other
  number of parts is a ValueError. \<^verbatim>\<open>urlparse\<close> of a value that is not a string
  yields bytes when the value is falsy (splitting them by a string is a TypeError) and
  calls its \<^verbatim>\<open>decode\<close> otherwise (an AttributeError).
\<close>

definition get_org_repo :: "'f python \<Rightarrow> 'f json \<Rightarrow> (string \<times> string) result" where
  "get_org_repo py url =
     (case url of
        JStr u \<Rightarrow>
          and_then (urlparse_path py u) (\<lambda>path.
            (case split_on CHR ''/'' path of
               [_, org, repo] \<Rightarrow> Inr (org, repo)
             | _ \<Rightarrow> Inl ValueError))
      | _ \<Rightarrow> Inl (if truthy py url then AttributeError else TypeError))"

text \<open>Lines 142 to 146: the combined label stands for two languages of the line counter.\<close>

definition languages_of :: "'f json \<Rightarrow> 'f json list" where
  "languages_of language =
     (if language = JStr JS_TS_LANGUAGE then [JStr ''JavaScript'', JStr ''TypeScript'']
      else [language])"

text \<open>
  \<^verbatim>\<open>sum(data["tokei"][language][key] for language in languages for key in [...])\<close>:
  the generator fetches one value at a time and \<^verbatim>\<open>sum\<close> adds it to the running
  total, which starts at the integer 0.
\<close>

fun sum_loc :: "'f python \<Rightarrow> 'f json \<Rightarrow> 'f json \<Rightarrow> ('f json \<times> string) list \<Rightarrow> 'f json result" where
  "sum_loc py data acc [] = Inr acc"
| "sum_loc py data acc ((language, key) # rest) =
     and_then (getitem data (JStr ''tokei'')) (\<lambda>tokei.
     and_then (getitem tokei language) (\<lambda>stats.
     and_then (getitem stats (JStr key)) (\<lambda>v.
     and_then (py_add py acc v) (\<lambda>acc'.
     sum_loc py data acc' rest))))"

definition language_loc :: "'f python \<Rightarrow> 'f json \<Rightarrow> 'f json list \<Rightarrow> 'f json result" where
  "language_loc py data languages =
     sum_loc py data (JInt 0) (List.product languages [''blanks'', ''code'', ''comments''])"

text \<open>The findings: \<^verbatim>\<open>for result in data["semgrep"]["results"]\<close>.\<close>

definition findings :: "'f json \<Rightarrow> 'f json list result" where
  "findings data =
     and_then (getitem data (JStr ''semgrep'')) (\<lambda>semgrep.
     and_then (getitem semgrep (JStr ''results'')) iter)"

text \<open>\<^verbatim>\<open>sum(int(marker in result["check_id"]) for result in data["semgrep"]["results"])\<close>\<close>

definition marker_in :: "string \<Rightarrow> 'f json \<Rightarrow> bool result" where
  "marker_in marker result = and_then (getitem result (JStr ''check_id'')) (contains marker)"

definition count_marker :: "string \<Rightarrow> 'f json \<Rightarrow> int result" where
  "count_marker marker data =
     and_then (findings data) (\<lambda>results.
     and_then (traverse (marker_in marker) results) (\<lambda>bs.
     Inr (sum_list (map (\<lambda>b. if b then 1 else 0) bs))))"

text \<open>
  The set comprehension of the role count: for each finding and each of the two
  metavariables in turn, when \<^verbatim>\<open>metavariable in result["extra"]["metavars"]\<close>, the
  value \<^verbatim>\<open>result["extra"]["metavars"][metavariable]["abstract_content"]\<close> is added.
\<close>

definition metavars :: "'f json \<Rightarrow> 'f json result" where
  "metavars result =
     and_then (getitem result (JStr ''extra'')) (\<lambda>extra. getitem extra (JStr ''metavars''))"

definition abstract_content :: "'f json \<Rightarrow> string \<Rightarrow> 'f json result" where
  "abstract_content result metavariable =
     and_then (metavars result) (\<lambda>mvs.
     and_then (getitem mvs (JStr metavariable)) (\<lambda>binding.
     getitem binding (JStr ''abstract_content'')))"

fun role_set :: "'f python \<Rightarrow> 'f json list \<Rightarrow> ('f json \<times> string) list \<Rightarrow> 'f json list result" where
  "role_set py s [] = Inr s"
| "role_set py s ((result, metavariable) # rest) =
     and_then (metavars result) (\<lambda>mvs.
     and_then (contains metavariable mvs) (\<lambda>bound.
     if bound then
       and_then (abstract_content result metavariable) (\<lambda>v.
       and_then (set_add py v s) (\<lambda>s'. role_set py s' rest))
     else role_set py s rest))"

definition role_count :: "'f python \<Rightarrow> 'f json \<Rightarrow> int result" where
  "role_count py data =
     and_then (findings data) (\<lambda>results.
     and_then (role_set py [] (List.product results ROLE_METAVARIABLES)) (\<lambda>s.
     Inr (int (length s))))"

text \<open>
  \<^verbatim>\<open>process_output\<close> after \<^verbatim>\<open>json.load\<close>: the twelve fields of the row, in the
  order of the source. The counts are computed, and their exceptions raised, in the
  order of the assignments.
\<close>

definition process_data :: "'f python \<Rightarrow> 'f json \<Rightarrow> 'f json list result" where
  "process_data py data =
     and_then (getitem data (JStr ''language'')) (\<lambda>lang.
     and_then (language_loc py data (languages_of lang)) (\<lambda>loc.
     and_then (count_marker ''-route'' data) (\<lambda>route_count.
     and_then (count_marker ''-authenticated'' data) (\<lambda>authenticated_count.
     and_then (count_marker ''-unauthenticated'' data) (\<lambda>unauthenticated_count.
     and_then (count_marker ''-authorized'' data) (\<lambda>authorized_count.
     and_then (count_marker ''-unauthorized'' data) (\<lambda>unauthorized_count.
     and_then (role_count py data) (\<lambda>roles.
     and_then (getitem data (JStr ''repository'')) (\<lambda>repository.
     and_then (get_org_repo py repository) (\<lambda>(org, repo).
     and_then (getitem data (JStr ''hash'')) (\<lambda>full_hash.
     and_then (slice_to SHORT_HASH_LEN full_hash) (\<lambda>commit_hash.
     and_then (getitem data (JStr ''framework'')) (\<lambda>framework.
     and_then (getitem data (JStr ''language'')) (\<lambda>language.
     and_then (getitem data (JStr ''runtime'')) (\<lambda>runtime.
     Inr [JStr (org @ ''/'' @ repo),
          commit_hash,
          framework,
          language,
          JStr (py_str py loc),
          JStr (py_str py runtime),
          JStr (str_int route_count),
          JStr (str_int authenticated_count),
          JStr (str_int unauthenticated_count),
          JStr (str_int authorized_count),
          JStr (str_int unauthorized_count),
          JStr (str_int roles)])))))))))))))))"

text \<open>
  \<^verbatim>\<open>process_output(filepath)\<close>: \<open>load\<close> is \<^verbatim>\<open>json.load(filepath.open())\<close>, the file
  system seen through the parser; a missing or malformed file is its exception.
\<close>

definition process_output :: "'f python \<Rightarrow> ('p \<Rightarrow> 'f json result) \<Rightarrow> 'p \<Rightarrow> 'f json list result" where
  "process_output py load filepath = and_then (load filepath) (process_data py)"

section \<open>Process mode and the CSV emitter\<close>

text \<open>
  What a run of \<^verbatim>\<open>main\<close> ends in: an exception that nothing catches, or a return
  value (the exit status given to \<^verbatim>\<open>sys.exit\<close>) with the rows handed to the CSV
  writer on standard output and the lines \<^verbatim>\<open>main\<close> itself wrote to standard error.
  The progress lines of the workers and of the analyzer are not tracked.
\<close>

datatype 'f outcome =
    Raised pyerror
  | Returned int "'f json list list" "string list"

text \<open>The status the operating system sees: an uncaught exception ends the process with 1.\<close>

fun exit_status :: "'f outcome \<Rightarrow> int" where
  "exit_status (Raised (SystemExit n)) = n"
| "exit_status (Raised _) = 1"
| "exit_status (Returned n _ _) = n"

fun stdout_rows :: "'f outcome \<Rightarrow> 'f json list list" where
  "stdout_rows (Raised _) = []"
| "stdout_rows (Returned _ rows _) = rows"

text \<open>A \<^verbatim>\<open>pathlib.Path\<close> object, by the string it prints as.\<close>

datatype path = Path string

text \<open>
  \<^verbatim>\<open>repo in output\<close> where \<open>output\<close> is a path object yielded by \<^verbatim>\<open>glob\<close>: a path
  is neither a container nor iterable, so the test raises TypeError whatever the operands.
\<close>

definition in_path :: "string \<Rightarrow> path \<Rightarrow> bool result" where
  "in_path repo output = Inl TypeError"

text \<open>\<^verbatim>\<open>any(f(x) for x in xs)\<close>: stops at the first true element or exception.\<close>

fun any_of :: "('a \<Rightarrow> bool result) \<Rightarrow> 'a list \<Rightarrow> bool result" where
  "any_of f [] = Inr False"
| "any_of f (x # xs) = and_then (f x) (\<lambda>b. if b then Inr True else any_of f xs)"

text \<open>\<^verbatim>\<open>[x for x in xs if f(x)]\<close>\<close>

fun keep_if :: "('a \<Rightarrow> bool result) \<Rightarrow> 'a list \<Rightarrow> 'a list result" where
  "keep_if f [] = Inr []"
| "keep_if f (x # xs) =
     and_then (f x) (\<lambda>b. and_then (keep_if f xs) (\<lambda>ys. Inr (if b then x # ys else ys)))"

text \<open>
  \<^verbatim>\<open>args.repos\<close> is \<^verbatim>\<open>None\<close> without the flag and the list of its values with it;
  \<^verbatim>\<open>if args.repos\<close> is its truth value.
\<close>

fun repos_given :: "string list option \<Rightarrow> bool" where
  "repos_given None = False"
| "repos_given (Some rs) = (rs \<noteq> [])"

fun repos_list :: "string list option \<Rightarrow> string list" where
  "repos_list None = []"
| "repos_list (Some rs) = rs"

text \<open>Lines 307 to 314: the files \<^verbatim>\<open>output_dir.glob("*.json")\<close> yields, filtered.\<close>

definition select_outputs :: "string list option \<Rightarrow> path list \<Rightarrow> path list result" where
  "select_outputs repos outputs =
     (if repos_given repos
      then keep_if (\<lambda>output. any_of (\<lambda>repo. in_path repo output) (repos_list repos)) outputs
      else Inr outputs)"

text \<open>
  \<^verbatim>\<open>pool.map(process_output, outputs)\<close>: the rows in the order of the files, or the
  exception of a worker raised again in \<^verbatim>\<open>main\<close>. When several workers fail, which
  exception comes back depends on the scheduling; the model returns the first in file
  order.
\<close>

definition pool_map :: "('a \<Rightarrow> 'b result) \<Rightarrow> 'a list \<Rightarrow> 'b list result" where
  "pool_map f xs = traverse f xs"

text \<open>
  \<^verbatim>\<open>results.sort(key=lambda r: r[3] + r[2])\<close>: every key is computed first. Python
  compares strings lexicographically by code point, which is the order of \<open>string\<close>
  here, and its sort is stable: \<open>sort_key\<close>. Keys that are not all strings are left to
  the interpreter.
\<close>

definition row_key :: "'f python \<Rightarrow> 'f json list \<Rightarrow> 'f json result" where
  "row_key py r =
     and_then (seq_index r 3) (\<lambda>language.
     and_then (seq_index r 2) (\<lambda>framework.
     py_add py language framework))"

fun is_str :: "'f json \<Rightarrow> bool" where
  "is_str (JStr _) = True"
| "is_str _ = False"

fun the_str :: "'f json \<Rightarrow> string" where
  "the_str (JStr s) = s"
| "the_str _ = []"

definition sort_results :: "'f python \<Rightarrow> 'f json list list \<Rightarrow> 'f json list list result" where
  "sort_results py results =
     and_then (traverse (\<lambda>r. and_then (row_key py r) (\<lambda>k. Inr (k, r))) results) (\<lambda>keyed.
     if list_all (\<lambda>kr. is_str (fst kr)) keyed
     then Inr (map snd (sort_key (\<lambda>kr. the_str (fst kr)) keyed))
     else sort_other py keyed)"

definition headers :: "'f json list" where
  "headers = map JStr
     [''Repository'', ''Commit hash'', ''Framework'', ''Language'', ''Lines of code'',
      ''Semgrep runtime'', ''Route count'', ''Authn route count'', ''Unauthn route count'',
      ''Authz route count'', ''Unauthz route count'', ''Role count'']"

text \<open>Lines 322 to 346: the check of the field counts, then the header and the rows.\<close>

definition emit_csv :: "'f json list list \<Rightarrow> 'f outcome" where
  "emit_csv results =
     (if list_ex (\<lambda>result. length (headers :: 'f json list) \<noteq> length result) results
      then Returned 1 [] [''CSV header/row mismatch'']
      else Returned 0 (headers # results) [])"

definition process_mode ::
  "'f python \<Rightarrow> (path \<Rightarrow> 'f json result) \<Rightarrow> string list option \<Rightarrow> path list \<Rightarrow> 'f outcome" where
  "process_mode py load repos outputs =
     (case select_outputs repos outputs of
        Inl e \<Rightarrow> Raised e
      | Inr selected \<Rightarrow>
        (case pool_map (process_output py load) selected of
           Inl e \<Rightarrow> Raised e
         | Inr results \<Rightarrow>
           (case sort_results py results of
              Inl e \<Rightarrow> Raised e
            | Inr sorted_results \<Rightarrow> emit_csv sorted_results)))"

section \<open>The analyzer\<close>

text \<open>
  The registry \<^verbatim>\<open>HARNESS\<close>: language to framework to repositories, in the order of
  the source (a dictionary keeps the order of insertion).
\<close>

definition HARNESS :: "(string \<times> (string \<times> string list) list) list" where
  "HARNESS =
    [(''Python'',
       [(''django'',
           [''https://github.com/DefectDojo/django-DefectDojo'',
            ''https://github.com/saleor/saleor'',
            ''https://github.com/wagtail/wagtail'']),
        (''django-rest-framework'',
           [''https://github.com/DefectDojo/django-DefectDojo'']),
        (''flask'',
           [''https://github.com/apache/airflow'',
            ''https://github.com/flaskbb/flaskbb'',
            ''https://github.com/getredash/redash'']),
        (''sanic'',
           [''https://github.com/howie6879/owllook'',
            ''https://github.com/jacebrowning/memegen''])]),
     (''PHP'',
       [(''laravel'',
           [''https://github.com/monicahq/monica'',
            ''https://github.com/koel/koel'',
            ''https://github.com/BookStackApp/BookStack'']),
        (''symfony'',
           [''https://github.com/Sylius/Sylius'',
            ''https://github.com/sulu/sulu'',
            ''https://github.com/bolt/core'']),
        (''cakephp'',
           [''https://github.com/passbolt/passbolt_api'',
            ''https://github.com/croogo/croogo''])]),
     (''Ruby'',
       [(''rails'',
           [''https://github.com/discourse/discourse'',
            ''https://github.com/gitlabhq/gitlabhq'',
            ''https://github.com/diaspora/diaspora'']),
        (''grape'',
           [''https://github.com/locomotivecms/engine'',
            ''https://github.com/gitlabhq/gitlabhq'',
            ''https://github.com/Mapotempo/optimizer-api''])]),
     (''Java'',
       [(''spring'',
           [''https://github.com/thingsboard/thingsboard'',
            ''https://github.com/macrozheng/mall'',
            ''https://github.com/sqshq/piggymetrics'']),
        (''jax-rs'',
           [''https://github.com/DependencyTrack/dependency-track'',
            ''https://github.com/eclipse/kura'',
            ''https://github.com/eclipse/kapua''])]),
     (''Go'',
       [(''gorilla'',
           [''https://github.com/portainer/portainer'',
            ''https://github.com/google/exposure-notifications-server'']),
        (''gin'',
           [''https://github.com/photoprism/photoprism'',
            ''https://github.com/go-admin-team/go-admin'',
            ''https://github.com/gotify/server'']),
        (''chi'',
           [''https://github.com/dhax/go-base'',
            ''https://github.com/cloudfoundry/korifi''])]),
     (JS_TS_LANGUAGE,
       [(''express'',
           [''https://github.com/payloadcms/payload'',
            ''https://github.com/directus/directus'']),
        (''react'',
           [''https://github.com/elastic/kibana'',
            ''https://github.com/mattermost/mattermost-webapp'',
            ''https://github.com/apache/superset'']),
        (''angular'',
           [''https://github.com/Chocobozzz/PeerTube'',
            ''https://github.com/bitwarden/clients'',
            ''https://github.com/ever-co/ever-demand''])])]"

text \<open>
  The state the analyzer works on: which paths exist, each with the absolute path it
  resolves to, the calls of \<^verbatim>\<open>subprocess.run\<close> made so far (arguments and working
  directory), and the records written with \<^verbatim>\<open>json.dump\<close>.
\<close>

record 'f world =
  resolved :: "path \<Rightarrow> path option"
  invoked :: "(string list \<times> path option) list"
  written :: "(path \<times> 'f json) list"

text \<open>
  The operating system and the external tools, as the script sees them: what a command
  does to the state and returns (\<open>None\<close> when \<^verbatim>\<open>subprocess.run\<close> raises
  FileNotFoundError, otherwise return code, standard output and standard error),
  \<^verbatim>\<open>json.loads\<close>, the clock and the rounding of its difference to two places,
  \<^verbatim>\<open>Path.resolve()\<close>, opening a file for writing, \<^verbatim>\<open>mkdir(exist_ok=True)\<close>,
  \<^verbatim>\<open>glob("*.json")\<close> and \<^verbatim>\<open>json.load\<close> of a file.
\<close>

record 'f system =
  execute :: "string list \<Rightarrow> path option \<Rightarrow> 'f world \<Rightarrow> (int \<times> string \<times> string) option \<times> 'f world"
  json_loads :: "string \<Rightarrow> 'f json result"
  monotonic :: "'f world \<Rightarrow> 'f"
  rounded_difference :: "'f \<Rightarrow> 'f \<Rightarrow> 'f"
  resolve_path :: "'f world \<Rightarrow> path \<Rightarrow> path"
  open_write :: "path \<Rightarrow> 'f world \<Rightarrow> unit result \<times> 'f world"
  mkdir :: "path \<Rightarrow> 'f world \<Rightarrow> unit result \<times> 'f world"
  glob_json :: "'f world \<Rightarrow> path \<Rightarrow> path list"
  load_json :: "'f world \<Rightarrow> path \<Rightarrow> 'f json result"

type_synonym ('a, 'f) io = "'f world \<Rightarrow> 'a result \<times> 'f world"

definition io_then :: "('a, 'f) io \<Rightarrow> ('a \<Rightarrow> ('b, 'f) io) \<Rightarrow> ('b, 'f) io" where
  "io_then m f w = (case m w of (Inl e, w') \<Rightarrow> (Inl e, w') | (Inr x, w') \<Rightarrow> f x w')"

definition io_pure :: "'a \<Rightarrow> ('a, 'f) io" where
  "io_pure x w = (Inr x, w)"

definition io_lift :: "'a result \<Rightarrow> ('a, 'f) io" where
  "io_lift r w = (r, w)"

text \<open>\<^verbatim>\<open>path.exists()\<close> and \<^verbatim>\<open>path.resolve(strict=True)\<close> read the same file system.\<close>

definition path_exists :: "'f world \<Rightarrow> path \<Rightarrow> bool" where
  "path_exists w p = (resolved w p \<noteq> None)"

definition resolve_strict :: "path \<Rightarrow> (path, 'f) io" where
  "resolve_strict p w =
     (case resolved w p of None \<Rightarrow> (Inl FileNotFoundError, w) | Some a \<Rightarrow> (Inr a, w))"

text \<open>\<^verbatim>\<open>directory / name\<close> for a name of one component, as the script joins them.\<close>

fun join_path :: "path \<Rightarrow> string \<Rightarrow> path" where
  "join_path (Path d) name =
     Path (if name = [] \<or> name = ''.'' then d
           else if d = ''.'' then name
           else if d = ''/'' then d @ name
           else d @ ''/'' @ name)"

fun path_str :: "path \<Rightarrow> string" where
  "path_str (Path s) = s"

text \<open>\<^verbatim>\<open>s.strip()\<close>: the white space of Python among the characters below 256.\<close>

definition is_space :: "char \<Rightarrow> bool" where
  "is_space c = ((of_char c :: nat) \<in> set [9, 10, 11, 12, 13, 28, 29, 30, 31, 32, 133, 160])"

definition strip :: "string \<Rightarrow> string" where
  "strip s = rev (dropWhile is_space (rev (dropWhile is_space s)))"

text \<open>
  \<^verbatim>\<open>run_cmd(*args, cwd)\<close>: a missing executable and a return code other than
  \<^verbatim>\<open>os.EX_OK\<close> both end in \<^verbatim>\<open>sys.exit(1)\<close>; otherwise the standard output.
\<close>

definition run_cmd :: "'f system \<Rightarrow> string list \<Rightarrow> path option \<Rightarrow> (string, 'f) io" where
  "run_cmd sys args cwd w =
     (case execute sys args cwd w of
        (None, w') \<Rightarrow> (Inl (SystemExit 1), w'\<lparr>invoked := invoked w' @ [(args, cwd)]\<rparr>)
      | (Some (returncode, out, err), w') \<Rightarrow>
          (if returncode \<noteq> 0 then Inl (SystemExit 1) else Inr out,
           w'\<lparr>invoked := invoked w' @ [(args, cwd)]\<rparr>))"

definition analyze_repository ::
  "'f python \<Rightarrow> 'f system \<Rightarrow> path \<Rightarrow> path \<Rightarrow> string \<Rightarrow> string \<Rightarrow> string \<Rightarrow> (unit, 'f) io" where
  "analyze_repository py sys harness_dir output_dir language framework repository =
     io_then (io_lift (get_org_repo py (JStr repository))) (\<lambda>(org, repo).
     let target_dir = join_path harness_dir repo in
     io_then (resolve_strict target_dir) (\<lambda>target_abs.
     io_then (\<lambda>w.
        if \<not> path_exists w target_dir
        then io_then (resolve_strict harness_dir) (\<lambda>harness_abs.
               run_cmd sys [''git'', ''clone'', repository] (Some harness_abs)) w
        else io_pure [] w) (\<lambda>_.
     io_then (run_cmd sys [''git'', ''rev-parse'', ''HEAD''] (Some target_abs)) (\<lambda>head.
     let repository_hash = strip head in
     io_then (run_cmd sys [''tokei'', ''--output'', ''json''] (Some target_abs)) (\<lambda>tokei_output.
     io_then (io_lift (json_loads sys tokei_output)) (\<lambda>tokei_json.
     io_then (run_cmd sys [''routes'', ''which'', framework] None) (\<lambda>semgrep_config.
     io_then (\<lambda>w. run_cmd sys
        [''touch'', path_str (resolve_path sys w (join_path target_abs ''.semgrepignore''))]
        None w) (\<lambda>_.
     io_then (\<lambda>w. (Inr (monotonic sys w), w)) (\<lambda>start_time.
     io_then (run_cmd sys [''semgrep'', ''--json'', ''--config'', semgrep_config]
                (Some target_abs)) (\<lambda>semgrep_output.
     io_then (\<lambda>w. (Inr (monotonic sys w), w)) (\<lambda>end_time.
     let runtime = rounded_difference sys end_time start_time in
     io_then (io_lift (json_loads sys semgrep_output)) (\<lambda>semgrep_json.
     let output_path = join_path output_dir (repo @ ''.'' @ framework @ ''.json'');
         output = JObj [(''language'', JStr language),
                        (''framework'', JStr framework),
                        (''repository'', JStr repository),
                        (''hash'', JStr repository_hash),
                        (''tokei'', tokei_json),
                        (''semgrep'', semgrep_json),
                        (''runtime'', JFloat runtime)] in
     io_then (open_write sys output_path) (\<lambda>_.
     (\<lambda>w. (Inr (), w\<lparr>written := written w @ [(output_path, output)]\<rparr>)))))))))))))))"

text \<open>
  Lines 296 to 302: the entries of the registry in its order, kept when no
  \<^verbatim>\<open>--repos\<close> was given or one of its values occurs in the repository URL.
\<close>

definition harness_entries :: "(string \<times> string \<times> string) list" where
  "harness_entries =
     concat (map (\<lambda>(language, frameworks).
       concat (map (\<lambda>(framework, repositories).
         map (\<lambda>repository. (language, framework, repository)) repositories) frameworks))
       HARNESS)"

definition entry_selected :: "string list option \<Rightarrow> string \<times> string \<times> string \<Rightarrow> bool" where
  "entry_selected repos entry =
     (if repos_given repos
      then list_ex (\<lambda>repo. substring repo (snd (snd entry))) (repos_list repos)
      else True)"

definition analyses :: "string list option \<Rightarrow> (string \<times> string \<times> string) list" where
  "analyses repos = filter (entry_selected repos) harness_entries"

fun analyze_each ::
  "'f python \<Rightarrow> 'f system \<Rightarrow> path \<Rightarrow> path \<Rightarrow> (string \<times> string \<times> string) list \<Rightarrow> (unit, 'f) io" where
  "analyze_each py sys harness_dir output_dir [] = io_pure ()"
| "analyze_each py sys harness_dir output_dir ((language, framework, repository) # rest) =
     io_then (analyze_repository py sys harness_dir output_dir language framework repository)
       (\<lambda>_. analyze_each py sys harness_dir output_dir rest)"

section \<open>The entry point\<close>

record args =
  harness_dir :: string
  output_dir :: string
  repos :: "string list option"
  analyze :: bool
  process :: bool

text \<open>\<^verbatim>\<open>main()\<close> after \<^verbatim>\<open>parse_args()\<close>; it returns 1 or \<^verbatim>\<open>os.EX_OK\<close>, which is 0.\<close>

definition main :: "'f python \<Rightarrow> 'f system \<Rightarrow> args \<Rightarrow> 'f world \<Rightarrow> 'f outcome \<times> 'f world" where
  "main py sys a w0 =
     (case mkdir sys (Path (harness_dir a)) w0 of
        (Inl e, w1) \<Rightarrow> (Raised e, w1)
      | (Inr _, w1) \<Rightarrow>
        (case mkdir sys (Path (output_dir a)) w1 of
           (Inl e, w2) \<Rightarrow> (Raised e, w2)
         | (Inr _, w2) \<Rightarrow>
           if analyze a then
             (case analyze_each py sys (Path (harness_dir a)) (Path (output_dir a))
                     (analyses (repos a)) w2 of
                (Inl e, w3) \<Rightarrow> (Raised e, w3)
              | (Inr _, w3) \<Rightarrow> (Returned 0 [] [], w3))
           else if process a then
             (process_mode py (load_json sys w2) (repos a)
                (glob_json sys w2 (Path (output_dir a))), w2)
           else (Raised ValueError, w2)))"

section \<open>Notions of the specification\<close>

text \<open>
  A finding contains a marker when its \<^verbatim>\<open>check_id\<close> is a string in which the marker
  occurs; \<open>marked\<close> counts such findings.
\<close>

definition has_marker :: "string \<Rightarrow> 'f json \<Rightarrow> bool" where
  "has_marker marker finding =
     (case getitem finding (JStr ''check_id'') of
        Inr (JStr s) \<Rightarrow> sublist marker s
      | _ \<Rightarrow> False)"

definition marked :: "string \<Rightarrow> 'f json list \<Rightarrow> nat" where
  "marked marker fs = length (filter (has_marker marker) fs)"

text \<open>The scanner's contract: the \<^verbatim>\<open>check_id\<close> of a finding is a string.\<close>

definition string_check_id :: "'f json \<Rightarrow> bool" where
  "string_check_id finding =
     (case getitem finding (JStr ''check_id'') of
        Inr (JStr s) \<Rightarrow> True
      | _ \<Rightarrow> False)"

text \<open>
  The literal texts a finding binds to the role metavariables, and the set of them over
  all findings.
\<close>

definition literals_of :: "'f json \<Rightarrow> string list" where
  "literals_of finding =
     concat (map (\<lambda>metavariable.
        case abstract_content finding metavariable of
          Inr (JStr s) \<Rightarrow> [s]
        | _ \<Rightarrow> [])
       ROLE_METAVARIABLES)"

definition role_literals :: "'f json list \<Rightarrow> string set" where
  "role_literals fs = set (concat (map literals_of fs))"

text \<open>The scanner's contract: what a metavariable binds is text.\<close>

definition text_binding :: "'f json \<times> string \<Rightarrow> bool" where
  "text_binding fm =
     (case abstract_content (fst fm) (snd fm) of
        Inr v \<Rightarrow> is_str v
      | Inl _ \<Rightarrow> True)"

definition text_roles :: "'f json \<Rightarrow> bool" where
  "text_roles finding =
     list_all (\<lambda>metavariable. text_binding (finding, metavariable)) ROLE_METAVARIABLES"

text \<open>
  A value lacks a field when it is a dictionary without that key: the subscript raises
  KeyError. A record is missing an expected field when one of the fields that
  \<^verbatim>\<open>process_output\<close> reads is lacking: the seven fields of the record, the results of
  the scan, the line counts of a language of the record, and in a finding the
  \<^verbatim>\<open>check_id\<close>, the \<^verbatim>\<open>extra\<close> field, its metavariable container, or the content of a
  role metavariable that the container binds.
\<close>

definition lacks :: "'f json \<Rightarrow> 'f json \<Rightarrow> bool" where
  "lacks d k = (getitem d k = Inl KeyError)"

definition binding_incomplete :: "'f json \<Rightarrow> string \<Rightarrow> bool" where
  "binding_incomplete mvs metavariable =
     (case getitem mvs (JStr metavariable) of
        Inr b \<Rightarrow> lacks b (JStr ''abstract_content'')
      | Inl _ \<Rightarrow> False)"

definition finding_incomplete :: "'f json \<Rightarrow> bool" where
  "finding_incomplete f =
     (lacks f (JStr ''check_id'') \<or> lacks f (JStr ''extra'') \<or>
      (case getitem f (JStr ''extra'') of
         Inr extra \<Rightarrow>
           lacks extra (JStr ''metavars'') \<or>
           (case getitem extra (JStr ''metavars'') of
              Inr mvs \<Rightarrow> list_ex (binding_incomplete mvs) ROLE_METAVARIABLES
            | Inl _ \<Rightarrow> False)
       | Inl _ \<Rightarrow> False))"

definition counts_incomplete :: "'f json \<Rightarrow> 'f json \<Rightarrow> bool" where
  "counts_incomplete tokei language =
     (lacks tokei language \<or>
      (case getitem tokei language of
         Inr stats \<Rightarrow> list_ex (\<lambda>key. lacks stats (JStr key)) [''blanks'', ''code'', ''comments'']
       | Inl _ \<Rightarrow> False))"

definition missing_field :: "'f json \<Rightarrow> bool" where
  "missing_field data =
     (list_ex (\<lambda>key. lacks data (JStr key))
        [''language'', ''tokei'', ''semgrep'', ''repository'', ''hash'', ''framework'',
         ''runtime''] \<or>
      (case getitem data (JStr ''semgrep'') of
         Inr semgrep \<Rightarrow> lacks semgrep (JStr ''results'')
       | Inl _ \<Rightarrow> False) \<or>
      (case findings data of
         Inr fs \<Rightarrow> list_ex finding_incomplete fs
       | Inl _ \<Rightarrow> False) \<or>
      (case getitem data (JStr ''language'') of
         Inr language \<Rightarrow>
           (case getitem data (JStr ''tokei'') of
              Inr tokei \<Rightarrow> list_ex (counts_incomplete tokei) (languages_of language)
            | Inl _ \<Rightarrow> False)
       | Inl _ \<Rightarrow> False))"

text \<open>
  What is assumed of \<^verbatim>\<open>list.sort\<close> where the model leaves it to the interpreter: it
  returns the rows it was given, in some order.
\<close>

definition reorders :: "'f python \<Rightarrow> bool" where
  "reorders py =
     (\<forall>keyed rows. sort_other py keyed = Inr rows \<longrightarrow> mset rows = mset (map snd keyed))"

text \<open>The key the emitter sorts by, for a row whose language and framework are strings.\<close>

definition language_framework :: "'f json list \<Rightarrow> string" where
  "language_framework row = the_str (row ! 3) @ the_str (row ! 2)"

definition string_labels :: "'f json list \<Rightarrow> bool" where
  "string_labels row = (is_str (row ! 2) \<and> is_str (row ! 3))"

definition bound_texts :: "('f json \<times> string) list \<Rightarrow> 'f json set" where
  "bound_texts ps =
     {JStr t | t f mv. (f, mv) \<in> set ps \<and> abstract_content f mv = Inr (JStr t)}"

section \<open>Sample inputs\<close>

text \<open>
  An interpreter to run the definitions on examples. A float is given by the text Python
  prints for it. The path of a URL of the form \<^verbatim>\<open>scheme://host/path\<close> is what follows
  the host. Keys that are all integers are sorted as numbers, other keys that are not
  all strings raise TypeError. No example adds floats.
\<close>

fun after_scheme :: "string \<Rightarrow> string" where
  "after_scheme (a # b # c # cs) =
     (if [a, b, c] = ''://'' then cs else after_scheme (b # c # cs))"
| "after_scheme _ = []"

definition sample_python :: "string python" where
  "sample_python =
     \<lparr>urlparse_path = (\<lambda>u. Inr (dropWhile (\<lambda>c. c \<noteq> CHR ''/'') (after_scheme u))),
      float_add = (\<lambda>a b. Inl OverflowError),
      float_eq = (\<lambda>a b. a = b),
      float_truthy = (\<lambda>x. x \<noteq> ''0.0'' \<and> x \<noteq> ''-0.0''),
      repr_value = (\<lambda>v. case v of JFloat x \<Rightarrow> x | _ \<Rightarrow> ''...''),
      sort_other = (\<lambda>keyed.
         if list_all (\<lambda>kr. int_like (fst kr) \<noteq> None) keyed
         then Inr (map snd (sort_key (\<lambda>kr. the (int_like (fst kr))) keyed))
         else Inl TypeError)\<rparr>"

definition binding :: "string \<Rightarrow> string \<Rightarrow> string \<times> 'f json" where
  "binding metavariable content = (metavariable, JObj [(''abstract_content'', JStr content)])"

definition finding :: "string \<Rightarrow> (string \<times> 'f json) list \<Rightarrow> 'f json" where
  "finding check bindings =
     JObj [(''check_id'', JStr check), (''extra'', JObj [(''metavars'', JObj bindings)])]"

definition sample_findings :: "string json list" where
  "sample_findings =
     [finding ''flask-route-authorized''
        [binding ''$AUTHZ'' ''admin'', binding ''$...AUTHZ'' ''admin''],
      finding ''flask-route-authorized'' [binding ''$AUTHZ'' ''admin''],
      finding ''flask-route-unauthenticated'' [],
      finding ''flask-route-authenticated''
        [binding ''$FUNC'' ''index'', binding ''$...AUTHZ'' ''editor''],
      finding ''flask-route-unauthorized'' []]"

definition record_of ::
  "string \<Rightarrow> string \<Rightarrow> string \<Rightarrow> 'f json \<Rightarrow> 'f json \<Rightarrow> 'f json list \<Rightarrow> 'f json \<Rightarrow> 'f json" where
  "record_of language framework repository full_hash tokei results runtime =
     JObj [(''language'', JStr language),
           (''framework'', JStr framework),
           (''repository'', JStr repository),
           (''hash'', full_hash),
           (''tokei'', tokei),
           (''semgrep'', JObj [(''results'', JArr results)]),
           (''runtime'', runtime)]"

definition sample_tokei :: "string json" where
  "sample_tokei =
     JObj [(''Python'',
            JObj [(''blanks'', JInt 10), (''code'', JInt 200), (''comments'', JInt 30)])]"

definition sample_record :: "string json" where
  "sample_record =
     record_of ''Python'' ''flask'' ''https://github.com/getredash/redash''
       (JStr ''9f2c1e7a0b3d4c5e6f708192a3b4c5d6e7f80912'') sample_tokei sample_findings
       (JFloat ''12.34'')"

definition sample_row :: "string json list" where
  "sample_row = map JStr
     [''getredash/redash'', ''9f2c1e7'', ''flask'', ''Python'', ''240'', ''12.34'',
      ''5'', ''1'', ''1'', ''2'', ''1'', ''2'']"

text \<open>
  The example of the specification as it is written there: repository
  \<^verbatim>\<open>https://github.com/a/b\<close>, framework flask, language Python, and the findings
  \<^verbatim>\<open>[{"check_id":"flask-route-get"}, {"check_id":"flask-authenticated-route"}]\<close>, which
  hold nothing but their identifier. Commit hash, line counts and duration are not given
  there.
\<close>

definition literal_example :: "'f json \<Rightarrow> 'f json \<Rightarrow> 'f json \<Rightarrow> 'f json" where
  "literal_example full_hash tokei runtime =
     record_of ''Python'' ''flask'' ''https://github.com/a/b'' full_hash tokei
       [JObj [(''check_id'', JStr ''flask-route-get'')],
        JObj [(''check_id'', JStr ''flask-authenticated-route'')]]
       runtime"



text \<open>Two records of the Go part of the registry, and an output directory holding three files.\<close>

definition go_tokei :: "string json" where
  "go_tokei =
     JObj [(''Go'', JObj [(''blanks'', JInt 1), (''code'', JInt 7), (''comments'', JInt 2)])]"

definition gin_record :: "string json" where
  "gin_record =
     record_of ''Go'' ''gin'' ''https://github.com/gotify/server''
       (JStr ''0a1b2c3d4e5f60718293a4b5c6d7e8f901234567'') go_tokei
       [finding ''gin-route-unauthenticated'' []] (JFloat ''3.5'')"

definition chi_record :: "string json" where
  "chi_record =
     record_of ''Go'' ''chi'' ''https://github.com/dhax/go-base''
       (JStr ''fedcba9876543210fedcba9876543210fedcba98'') go_tokei
       [finding ''chi-route-authenticated'' []] (JFloat ''2.25'')"

definition gin_row :: "string json list" where
  "gin_row = map JStr
     [''gotify/server'', ''0a1b2c3'', ''gin'', ''Go'', ''10'', ''3.5'',
      ''1'', ''0'', ''1'', ''0'', ''0'', ''0'']"

definition chi_row :: "string json list" where
  "chi_row = map JStr
     [''dhax/go-base'', ''fedcba9'', ''chi'', ''Go'', ''10'', ''2.25'',
      ''1'', ''1'', ''0'', ''0'', ''0'', ''0'']"

definition sample_files :: "(path \<times> string json) list" where
  "sample_files =
     [(Path ''output/server.gin.json'', gin_record),
      (Path ''output/go-base.chi.json'', chi_record),
      (Path ''output/redash.flask.json'', sample_record)]"

definition sample_load :: "path \<Rightarrow> string json result" where
  "sample_load p =
     (case map_of sample_files p of None \<Rightarrow> Inl FileNotFoundError | Some d \<Rightarrow> Inr d)"

text \<open>A record like the sample whose second finding has no \<^verbatim>\<open>extra\<close> field.\<close>

definition broken_record :: "string json" where
  "broken_record =
     record_of ''Python'' ''flask'' ''https://github.com/getredash/redash''
       (JStr ''9f2c1e7a0b3d4c5e6f708192a3b4c5d6e7f80912'') sample_tokei
       [finding ''flask-route-authenticated'' [],
        JObj [(''check_id'', JStr ''flask-route-unauthenticated'')]]
       (JFloat ''12.34'')"

definition broken_load :: "path \<Rightarrow> string json result" where
  "broken_load p =
     (if p = Path ''output/broken.flask.json'' then Inr broken_record else sample_load p)"

text \<open>
  An operating system for the analyzer: every tool is installed and succeeds,
  \<^verbatim>\<open>git clone\<close> creates the directory of the repository under the working directory,
  the line counter and the scanner print texts that \<^verbatim>\<open>json.loads\<close> reads as the
  sample's line counts and findings, and the scan takes 12.34 seconds.
\<close>

definition absolute :: "path \<Rightarrow> path" where
  "absolute p = Path (''/work/'' @ path_str p)"

definition sample_execute ::
  "string list \<Rightarrow> path option \<Rightarrow> string world \<Rightarrow> (int \<times> string \<times> string) option \<times> string world" where
  "sample_execute cmd cwd w =
     (if take 2 cmd = [''git'', ''clone''] then
        (Some (0, [], []),
         w\<lparr>resolved := (resolved w)
              (Path ''harness/redash'' := Some (Path ''/work/harness/redash''))\<rparr>)
      else if take 2 cmd = [''git'', ''rev-parse''] then
        (Some (0, ''9f2c1e7a0b3d4c5e6f708192a3b4c5d6e7f80912'' @ [CHR 0x0A], []), w)
      else if take 1 cmd = [''tokei''] then (Some (0, ''TOKEI'', []), w)
      else if take 1 cmd = [''routes''] then (Some (0, ''/rules/flask.yaml'', []), w)
      else if take 1 cmd = [''semgrep''] then (Some (0, ''SEMGREP'', []), w)
      else (Some (0, [], []), w))"

definition sample_system :: "string system" where
  "sample_system =
     \<lparr>execute = sample_execute,
      json_loads = (\<lambda>text.
         if text = ''TOKEI'' then Inr sample_tokei
         else if text = ''SEMGREP'' then Inr (JObj [(''results'', JArr sample_findings)])
         else Inl JSONDecodeError),
      monotonic = (\<lambda>w. ''0.0''),
      rounded_difference = (\<lambda>end_time start_time. ''12.34''),
      resolve_path = (\<lambda>w p. case resolved w p of None \<Rightarrow> p | Some a \<Rightarrow> a),
      open_write = (\<lambda>p w. (Inr (), w)),
      mkdir = (\<lambda>p w. (Inr (), w\<lparr>resolved := (resolved w)(p := Some (absolute p))\<rparr>)),
      glob_json = (\<lambda>w p. map fst sample_files),
      load_json = (\<lambda>w. sample_load)\<rparr>"

text \<open>
  Two states: one in which only the harness and output directories exist, and one in
  which the repository has been cloned as well.
\<close>

definition fresh_world :: "string world" where
  "fresh_world =
     \<lparr>resolved = [Path ''harness'' \<mapsto> Path ''/work/harness'',
                  Path ''output'' \<mapsto> Path ''/work/output''],
      invoked = [],
      written = []\<rparr>"

definition cloned_world :: "string world" where
  "cloned_world =
     fresh_world\<lparr>resolved := (resolved fresh_world)
       (Path ''harness/redash'' := Some (Path ''/work/harness/redash''))\<rparr>"

definition process_redash :: args where
  "process_redash =
     \<lparr>harness_dir = ''harness'', output_dir = ''output'', repos = Some [''redash''],
      analyze = False, process = True\<rparr>"

definition analyze_redash :: args where
  "analyze_redash =
     \<lparr>harness_dir = ''harness'', output_dir = ''output'', repos = Some [''redash''],
      analyze = True, process = False\<rparr>"

definition process_all :: args where
  "process_all =
     \<lparr>harness_dir = ''harness'', output_dir = ''output'', repos = None,
      analyze = False, process = True\<rparr>"

text \<open>
  A record whose language and framework are numbers: the language indexes the list of
  line counts, and the sort key of its row is the number 3, not a string.
\<close>

definition numeric_record :: "string json" where
  "numeric_record =
     JObj [(''language'', JInt 1),
           (''framework'', JInt 2),
           (''repository'', JStr ''https://github.com/getredash/redash''),
           (''hash'', JStr ''9f2c1e7a0b3d4c5e6f708192a3b4c5d6e7f80912''),
           (''tokei'', JArr [JNull,
              JObj [(''blanks'', JInt 10), (''code'', JInt 200), (''comments'', JInt 30)]]),
           (''semgrep'', JObj [(''results'', JArr [])]),
           (''runtime'', JFloat ''12.34'')]"

definition numeric_row :: "string json list" where
  "numeric_row =
     [JStr ''getredash/redash'', JStr ''9f2c1e7'', JInt 2, JInt 1, JStr ''240'',
      JStr ''12.34'', JStr ''0'', JStr ''0'', JStr ''0'', JStr ''0'', JStr ''0'', JStr ''0'']"

definition numeric_system :: "string system" where
  "numeric_system =
     sample_system
       \<lparr>glob_json := (\<lambda>w p. [Path ''output/numbers.json'']),
        load_json := (\<lambda>w p. Inr numeric_record)\<rparr>"

text \<open>
  An interpreter whose sort of keys that are not strings loses the last field of every
  row. The rows of \<^verbatim>\<open>process_output\<close> have twelve fields, so the check of the field
  counts can fail in process mode only after a sort that does not return the rows it
  was given; this one is there to run that branch.
\<close>

definition careless_python :: "string python" where
  "careless_python =
     sample_python\<lparr>sort_other := (\<lambda>keyed. Inr (map (\<lambda>kr. butlast (snd kr)) keyed))\<rparr>"

section \<open>Basic facts\<close>

lemma and_then_Inr_iff: "and_then m f = Inr y \<longleftrightarrow> (\<exists>x. m = Inr x \<and> f x = Inr y)"
  by (cases m) (simp_all add: and_then_def)

lemma and_then_Inl: "and_then (Inl e) f = Inl e"
  by (simp add: and_then_def)

lemma and_then_Inr: "and_then (Inr x) f = f x"
  by (simp add: and_then_def)

lemma substring_sublist: "substring s t = sublist s t"
  by (induction t) (simp_all add: sublist_Cons_right)

lemma traverse_Inr_length: "traverse f xs = Inr ys \<Longrightarrow> length ys = length xs"
  by (induction xs arbitrary: ys) (auto simp: and_then_Inr_iff)

text \<open>What a row that \<open>process_data\<close> returns was built from.\<close>

lemma process_data_Inr:
  assumes "process_data py data = Inr row"
  shows "\<exists>lang loc rc ac uc azc uzc roles repository org repo full_hash commit_hash framework runtime.
      getitem data (JStr ''language'') = Inr lang
    \<and> language_loc py data (languages_of lang) = Inr loc
    \<and> count_marker ''-route'' data = Inr rc
    \<and> count_marker ''-authenticated'' data = Inr ac
    \<and> count_marker ''-unauthenticated'' data = Inr uc
    \<and> count_marker ''-authorized'' data = Inr azc
    \<and> count_marker ''-unauthorized'' data = Inr uzc
    \<and> role_count py data = Inr roles
    \<and> getitem data (JStr ''repository'') = Inr repository
    \<and> get_org_repo py repository = Inr (org, repo)
    \<and> getitem data (JStr ''hash'') = Inr full_hash
    \<and> slice_to SHORT_HASH_LEN full_hash = Inr commit_hash
    \<and> getitem data (JStr ''framework'') = Inr framework
    \<and> getitem data (JStr ''runtime'') = Inr runtime
    \<and> row = [JStr (org @ ''/'' @ repo), commit_hash, framework, lang,
              JStr (py_str py loc), JStr (py_str py runtime),
              JStr (str_int rc), JStr (str_int ac), JStr (str_int uc),
              JStr (str_int azc), JStr (str_int uzc), JStr (str_int roles)]"
  using assms unfolding process_data_def
  by (fastforce simp: and_then_Inr_iff split: prod.splits)

subsection \<open>Counting findings by marker\<close>

lemma marker_in_string:
  "string_check_id f \<Longrightarrow> marker_in m f = Inr (has_marker m f)"
  by (auto simp: string_check_id_def marker_in_def has_marker_def and_then_def substring_sublist
      split: sum.splits json.splits)

lemma traverse_marker_in:
  "list_all string_check_id fs \<Longrightarrow> traverse (marker_in m) fs = Inr (map (has_marker m) fs)"
  by (induction fs) (simp_all add: marker_in_string and_then_Inr)

lemma sum_flags:
  "sum_list (map ((\<lambda>b. if b then 1 else 0) \<circ> P) xs) = int (length (filter P xs))"
  by (induction xs) simp_all

lemma count_marker_eq:
  "findings data = Inr fs \<Longrightarrow> list_all string_check_id fs \<Longrightarrow>
   count_marker m data = Inr (int (marked m fs))"
  by (simp add: count_marker_def and_then_Inr traverse_marker_in sum_flags marked_def)


subsection \<open>The set of role literals\<close>

lemma py_eq_str: "py_eq py (JStr a) (JStr b) = (a = b)"
  by (simp add: py_eq_def)

lemma list_ex_py_eq_str:
  "list_all is_str s \<Longrightarrow> list_ex (py_eq py (JStr a)) s = (JStr a \<in> set s)"
proof (induction s)
  case Nil
  then show ?case by simp
next
  case (Cons v s)
  then obtain b where "v = JStr b" by (cases v) simp_all
  with Cons show ?case by (auto simp: py_eq_str)
qed

lemma set_add_str:
  assumes "set_add py (JStr a) s = Inr s'" and "list_all is_str s" and "distinct s"
  shows "list_all is_str s' \<and> distinct s' \<and> set s' = insert (JStr a) (set s)"
  using assms by (auto simp: set_add_def list_ex_py_eq_str split: if_splits)

text \<open>A key that \<^verbatim>\<open>in\<close> does not find cannot be subscripted.\<close>

lemma not_contained_no_item:
  "contains k c = Inr False \<Longrightarrow> \<exists>e. getitem c (JStr k) = Inl e"
proof (cases c)
  case (JObj kvs)
  assume "contains k c = Inr False"
  with JObj have "k \<notin> fst ` set kvs" by simp
  then have "map_of kvs k = None" by (simp add: map_of_eq_None_iff)
  with JObj show ?thesis by simp
qed (simp_all)

lemma unbound_no_content:
  assumes "metavars f = Inr mvs" and "contains mv mvs = Inr False"
  shows "\<exists>e. abstract_content f mv = Inl e"
proof -
  from not_contained_no_item [OF assms(2)] obtain e where "getitem mvs (JStr mv) = Inl e" ..
  with assms(1) show ?thesis
    by (simp add: abstract_content_def and_then_Inr and_then_Inl)
qed

text \<open>
  The loop of the set comprehension: started from a set of distinct texts, it ends in
  that set extended by the texts the pairs bind.
\<close>

lemma role_set_texts:
  assumes "role_set py s ps = Inr s'" and "list_all is_str s" and "distinct s"
    and "list_all text_binding ps"
  shows "distinct s' \<and> set s' = set s \<union> bound_texts ps"
  using assms unfolding bound_texts_def
proof (induction ps arbitrary: s)
  case Nil
  then show ?case by simp
next
  case (Cons p ps)
  obtain f mv where p: "p = (f, mv)" by (cases p)
  from Cons.prems(1) obtain mvs bound where
    mvs: "metavars f = Inr mvs" and bound: "contains mv mvs = Inr bound"
    and rest: "(if bound then
       and_then (abstract_content f mv) (\<lambda>v.
       and_then (set_add py v s) (\<lambda>s'. role_set py s' ps))
     else role_set py s ps) = Inr s'"
    by (auto simp: p and_then_Inr_iff)
  from Cons.prems(4) have tb: "text_binding (f, mv)" and tbs: "list_all text_binding ps"
    by (simp_all add: p)
  show ?case
  proof (cases bound)
    case True
    with rest obtain v s1 where v: "abstract_content f mv = Inr v"
      and s1: "set_add py v s = Inr s1" and r: "role_set py s1 ps = Inr s'"
      by (auto simp: and_then_Inr_iff)
    from tb v obtain a where a: "v = JStr a" by (cases v) (simp_all add: text_binding_def)
    from set_add_str [OF s1 [unfolded a] Cons.prems(2,3)]
    have 1: "list_all is_str s1" "distinct s1" "set s1 = insert (JStr a) (set s)" by simp_all
    from Cons.IH [OF r 1(1) 1(2) tbs]
    have "distinct s'"
      and "set s' = set s1 \<union>
        {JStr t | t f mv. (f, mv) \<in> set ps \<and> abstract_content f mv = Inr (JStr t)}"
      by simp_all
    with 1(3) v a show ?thesis
      by (auto simp: p)
  next
    case False
    with rest have r: "role_set py s ps = Inr s'" by simp
    from False bound have "contains mv mvs = Inr False" by simp
    from unbound_no_content [OF mvs this] obtain e where "abstract_content f mv = Inl e" ..
    with Cons.IH [OF r Cons.prems(2,3) tbs] show ?thesis
      by (auto simp: p)
  qed
qed

lemma bound_texts_product:
  "bound_texts (List.product fs ROLE_METAVARIABLES) = JStr ` role_literals fs"
  unfolding bound_texts_def
  by (auto simp: role_literals_def literals_of_def image_iff split: sum.splits json.splits)
    (force+)

lemma text_roles_product:
  "list_all text_roles fs \<Longrightarrow> list_all text_binding (List.product fs ROLE_METAVARIABLES)"
  by (induction fs) (auto simp: text_roles_def list_all_iff)

lemma role_count_card:
  assumes "role_count py data = Inr roles" and "findings data = Inr fs"
    and "list_all text_roles fs"
  shows "roles = int (card (role_literals fs))"
proof -
  from assms(1,2) obtain s where s: "role_set py [] (List.product fs ROLE_METAVARIABLES) = Inr s"
    and roles: "roles = int (length s)"
    by (auto simp: role_count_def and_then_Inr_iff)
  from role_set_texts [OF s _ _ text_roles_product [OF assms(3)]]
  have d: "distinct s" and e: "set s = JStr ` role_literals fs"
    by (simp_all add: bound_texts_product)
  have "length s = card (set s)"
    using distinct_card [OF d] by (rule sym)
  also have "\<dots> = card (role_literals fs)"
    unfolding e by (rule card_image) (simp add: inj_on_def)
  finally show ?thesis using roles by simp
qed


subsection \<open>Evaluating the samples\<close>

lemmas sample_defs = sample_record_def record_of_def sample_tokei_def sample_findings_def
  finding_def binding_def sample_row_def sample_python_def

lemmas eval_defs = process_data_def and_then_def language_loc_def languages_of_def
  JS_TS_LANGUAGE_def
  py_add_def count_marker_def findings_def marker_in_def role_count_def
  ROLE_METAVARIABLES_def metavars_def abstract_content_def get_org_repo_def
  SHORT_HASH_LEN_def str_int_def str_nat.simps digit_char_def set_add_def py_eq_def

lemma sample_row: "process_data sample_python sample_record = Inr sample_row"
  by (simp add: sample_defs eval_defs)

lemma sample_findings: "findings sample_record = Inr sample_findings"
  by (simp add: sample_defs eval_defs)

subsection \<open>Rows and their shape\<close>

lemma get_org_repo_Inr:
  assumes "get_org_repo py v = Inr (org, repo)"
  shows "\<exists>url path first. v = JStr url \<and> urlparse_path py url = Inr path
          \<and> split_on CHR ''/'' path = [first, org, repo]"
proof (cases v)
  case (JStr url)
  with assms obtain path where path: "urlparse_path py url = Inr path"
    and parts: "(case split_on CHR ''/'' path of
               [_, org, repo] \<Rightarrow> Inr (org, repo)
             | _ \<Rightarrow> Inl ValueError) = Inr (org, repo)"
    by (auto simp: get_org_repo_def and_then_Inr_iff)
  from parts obtain first where "split_on CHR ''/'' path = [first, org, repo]"
    by (auto split: list.splits)
  with JStr path show ?thesis by simp
qed (use assms in \<open>simp_all add: get_org_repo_def\<close>)

lemma length_headers: "length (headers :: 'f json list) = 12"
  by (simp add: headers_def)

lemma process_data_length: "process_data py data = Inr row \<Longrightarrow> length row = 12"
  using process_data_Inr [of py data row] by auto

lemma traverse_Inr_all:
  "traverse f xs = Inr ys \<Longrightarrow> (\<And>x y. f x = Inr y \<Longrightarrow> P y) \<Longrightarrow> list_all P ys"
  by (induction xs arbitrary: ys) (auto simp: and_then_Inr_iff)

lemma pool_map_rows:
  assumes "pool_map (process_output py load) outputs = Inr results"
  shows "length results = length outputs \<and> list_all (\<lambda>row. length row = 12) results"
proof -
  from assms have t: "traverse (process_output py load) outputs = Inr results"
    by (simp add: pool_map_def)
  have "list_all (\<lambda>row. length row = 12) results"
    by (rule traverse_Inr_all [OF t])
      (auto simp: process_output_def and_then_Inr_iff dest: process_data_length)
  with traverse_Inr_length [OF t] show ?thesis by simp
qed

lemma keep_if_in_path:
  "rs \<noteq> [] \<Longrightarrow> keep_if (\<lambda>output. any_of (\<lambda>repo. in_path repo output) rs) outputs =
     (if outputs = [] then Inr [] else Inl TypeError)"
  by (cases outputs; cases rs) (simp_all add: in_path_def and_then_Inl)

lemma select_outputs_Inr:
  "select_outputs flt outputs = Inr selected \<Longrightarrow> selected = outputs"
  by (cases flt) (auto simp: select_outputs_def keep_if_in_path split: if_splits)

lemma select_outputs_given:
  "repos_given flt \<Longrightarrow> outputs \<noteq> [] \<Longrightarrow> select_outputs flt outputs = Inl TypeError"
  by (cases flt) (auto simp: select_outputs_def keep_if_in_path)

text \<open>A run of process mode that returns went through every stage.\<close>

lemma process_mode_Returned:
  assumes "process_mode py load flt outputs = Returned status rows errs"
  shows "\<exists>results sorted_results.
           pool_map (process_output py load) outputs = Inr results
         \<and> sort_results py results = Inr sorted_results
         \<and> emit_csv sorted_results = Returned status rows errs"
  using assms
  by (auto simp: process_mode_def split: sum.splits dest!: select_outputs_Inr)

subsection \<open>Sorting\<close>

lemma seq_index_nat: "seq_index xs (int n) = Inr a \<Longrightarrow> a = xs ! n"
  by (auto simp: seq_index_def split: if_splits)

lemma row_key_strings:
  assumes "row_key py r = Inr k" and "string_labels r"
  shows "k = JStr (language_framework r)"
proof -
  from assms(1) obtain a b where a: "seq_index r 3 = Inr a" and b: "seq_index r 2 = Inr b"
    and k: "py_add py a b = Inr k"
    by (auto simp: row_key_def and_then_Inr_iff)
  from seq_index_nat [of r 3 a] a have a3: "a = r ! 3" by simp
  from seq_index_nat [of r 2 b] b have b2: "b = r ! 2" by simp
  from assms(2) obtain s t where "r ! 3 = JStr s" "r ! 2 = JStr t"
    by (cases "r ! 3"; cases "r ! 2") (simp_all add: string_labels_def)
  with k a3 b2 show ?thesis
    by (simp add: py_add_def language_framework_def is_number_def)
qed

lemma keyed_rows:
  "traverse (\<lambda>r. and_then (row_key py r) (\<lambda>k. Inr (k, r))) results = Inr keyed \<Longrightarrow>
   map snd keyed = results \<and> list_all (\<lambda>kr. row_key py (snd kr) = Inr (fst kr)) keyed"
  by (induction results arbitrary: keyed) (auto simp: and_then_Inr_iff)

lemma sort_results_mset:
  assumes "sort_results py results = Inr sorted_results" and "reorders py"
  shows "mset sorted_results = mset results"
proof -
  from assms(1) obtain keyed where
    t: "traverse (\<lambda>r. and_then (row_key py r) (\<lambda>k. Inr (k, r))) results = Inr keyed"
    and s: "(if list_all (\<lambda>kr. is_str (fst kr)) keyed
             then Inr (map snd (sort_key (\<lambda>kr. the_str (fst kr)) keyed))
             else sort_other py keyed) = Inr sorted_results"
    by (auto simp: sort_results_def and_then_Inr_iff)
  from keyed_rows [OF t] have m: "map snd keyed = results" by simp
  show ?thesis
  proof (cases "list_all (\<lambda>kr. is_str (fst kr)) keyed")
    case True
    with s have "sorted_results = map snd (sort_key (\<lambda>kr. the_str (fst kr)) keyed)" by simp
    then have "mset sorted_results = image_mset snd (mset keyed)" by simp
    also have "\<dots> = mset (map snd keyed)" by simp
    finally show ?thesis by (simp only: m)
  next
    case False
    with s have "sort_other py keyed = Inr sorted_results" by simp
    with assms(2) have "mset sorted_results = mset (map snd keyed)"
      by (simp add: reorders_def)
    then show ?thesis by (simp only: m)
  qed
qed

lemma sort_results_sorted:
  assumes "sort_results py results = Inr sorted_results" and "reorders py"
    and "list_all string_labels sorted_results"
  shows "sorted (map language_framework sorted_results)"
proof -
  from assms(1) obtain keyed where
    t: "traverse (\<lambda>r. and_then (row_key py r) (\<lambda>k. Inr (k, r))) results = Inr keyed"
    and s: "(if list_all (\<lambda>kr. is_str (fst kr)) keyed
             then Inr (map snd (sort_key (\<lambda>kr. the_str (fst kr)) keyed))
             else sort_other py keyed) = Inr sorted_results"
    by (auto simp: sort_results_def and_then_Inr_iff)
  from keyed_rows [OF t] have m: "map snd keyed = results"
    and keys: "list_all (\<lambda>kr. row_key py (snd kr) = Inr (fst kr)) keyed" by simp_all
  from sort_results_mset [OF assms(1,2)] have "set sorted_results = set results"
    by (rule mset_eq_setD)
  with assms(3) have labels: "list_all string_labels results"
    by (simp add: list_all_iff)
  have key: "fst kr = JStr (language_framework (snd kr))" if "kr \<in> set keyed" for kr
  proof -
    from that keys have "row_key py (snd kr) = Inr (fst kr)" by (simp add: list_all_iff)
    moreover from that m labels have "string_labels (snd kr)"
      by (auto simp: list_all_iff)
    ultimately show ?thesis by (rule row_key_strings)
  qed
  then have "list_all (\<lambda>kr. is_str (fst kr)) keyed"
    by (simp add: list_all_iff)
  with s have sr: "sorted_results = map snd (sort_key (\<lambda>kr. the_str (fst kr)) keyed)" by simp
  have "map language_framework sorted_results
        = map (\<lambda>kr. the_str (fst kr)) (sort_key (\<lambda>kr. the_str (fst kr)) keyed)"
    unfolding sr by (simp add: key)
  then show ?thesis by simp
qed

lemma emit_csv_rows:
  "emit_csv results = Returned status rows errs \<Longrightarrow> tl rows = results \<or> rows = []"
  by (auto simp: emit_csv_def split: if_splits)

subsection \<open>Fields that are read\<close>

lemma traverse_Inr_each:
  "traverse f xs = Inr ys \<Longrightarrow> x \<in> set xs \<Longrightarrow> \<exists>y. f x = Inr y"
  by (induction xs arbitrary: ys) (auto simp: and_then_Inr_iff)

lemma traverse_Inl:
  "x \<in> set xs \<Longrightarrow> f x = Inl e \<Longrightarrow> \<exists>e'. traverse f xs = Inl e'"
proof (cases "traverse f xs")
  case (Inr ys)
  assume "x \<in> set xs" "f x = Inl e"
  with traverse_Inr_each [OF Inr, of x] show ?thesis by simp
qed simp

lemma sum_loc_Inr:
  "sum_loc py data acc ps = Inr r \<Longrightarrow> (l, k) \<in> set ps \<Longrightarrow>
   \<exists>t st v. getitem data (JStr ''tokei'') = Inr t \<and> getitem t l = Inr st
            \<and> getitem st (JStr k) = Inr v"
proof (induction ps arbitrary: acc)
  case Nil
  then show ?case by simp
next
  case (Cons p ps)
  obtain l' k' where p: "p = (l', k')" by (cases p)
  from Cons.prems(1) obtain t st v acc' where
    here: "getitem data (JStr ''tokei'') = Inr t" "getitem t l' = Inr st"
          "getitem st (JStr k') = Inr v"
    and rest: "sum_loc py data acc' ps = Inr r"
    by (auto simp: p and_then_Inr_iff)
  show ?case
  proof (cases "(l, k) = (l', k')")
    case True
    with here show ?thesis by auto
  next
    case False
    with Cons.prems(2) p have "(l, k) \<in> set ps" by auto
    from Cons.IH [OF rest this] show ?thesis .
  qed
qed

lemma role_set_Inr_each:
  "role_set py s ps = Inr s' \<Longrightarrow> (f, mv) \<in> set ps \<Longrightarrow>
   \<exists>mvs b. metavars f = Inr mvs \<and> contains mv mvs = Inr b
          \<and> (b \<longrightarrow> (\<exists>v. abstract_content f mv = Inr v))"
proof (induction ps arbitrary: s)
  case Nil
  then show ?case by simp
next
  case (Cons p ps)
  obtain f' mv' where p: "p = (f', mv')" by (cases p)
  from Cons.prems(1) obtain mvs b where
    mvs: "metavars f' = Inr mvs" and b: "contains mv' mvs = Inr b"
    and rest: "(if b then
       and_then (abstract_content f' mv') (\<lambda>v.
       and_then (set_add py v s) (\<lambda>s'. role_set py s' ps))
     else role_set py s ps) = Inr s'"
    by (auto simp: p and_then_Inr_iff)
  from rest obtain s1 where tail: "role_set py s1 ps = Inr s'"
    and content: "b \<longrightarrow> (\<exists>v. abstract_content f' mv' = Inr v)"
    by (cases b) (auto simp: and_then_Inr_iff)
  show ?case
  proof (cases "(f, mv) = (f', mv')")
    case True
    with mvs b content show ?thesis by auto
  next
    case False
    with Cons.prems(2) p have "(f, mv) \<in> set ps" by auto
    from Cons.IH [OF tail this] show ?thesis .
  qed
qed

lemma getitem_contains:
  "getitem c (JStr k) = Inr v \<Longrightarrow> contains k c = Inr True"
proof (cases c)
  case (JObj kvs)
  assume "getitem c (JStr k) = Inr v"
  with JObj have "map_of kvs k = Some v" by (simp split: option.splits)
  then have "k \<in> fst ` set kvs" by (rule map_of_SomeD [THEN imageI [where f = fst], simplified])
  with JObj show ?thesis by simp
qed (simp_all add: and_then_def)

lemma not_lacks: "getitem d k = Inr v \<Longrightarrow> \<not> lacks d k"
  by (simp add: lacks_def)

lemma languages_of_nonempty: "languages_of l \<noteq> []"
  by (simp add: languages_of_def)

text \<open>Every field that is read was there when a row comes back.\<close>

lemma process_data_complete:
  assumes "process_data py data = Inr row"
  shows "\<not> missing_field data"
proof -
  from process_data_Inr [OF assms] obtain lang loc rc roles repository full_hash framework runtime
    where lang: "getitem data (JStr ''language'') = Inr lang"
    and loc: "language_loc py data (languages_of lang) = Inr loc"
    and rc: "count_marker ''-route'' data = Inr rc"
    and roles: "role_count py data = Inr roles"
    and top: "getitem data (JStr ''repository'') = Inr repository"
      "getitem data (JStr ''hash'') = Inr full_hash"
      "getitem data (JStr ''framework'') = Inr framework"
      "getitem data (JStr ''runtime'') = Inr runtime"
    by blast
  \<comment> \<open>the scan\<close>
  from rc obtain fs bs where fs: "findings data = Inr fs"
    and bs: "traverse (marker_in ''-route'') fs = Inr bs"
    by (auto simp: count_marker_def and_then_Inr_iff)
  from fs obtain semgrep results where semgrep: "getitem data (JStr ''semgrep'') = Inr semgrep"
    and results: "getitem semgrep (JStr ''results'') = Inr results"
    by (auto simp: findings_def and_then_Inr_iff)
  \<comment> \<open>the line counts\<close>
  have counts: "\<exists>t st v. getitem data (JStr ''tokei'') = Inr t \<and> getitem t l = Inr st
            \<and> getitem st (JStr k) = Inr v"
    if "l \<in> set (languages_of lang)" and "k \<in> set [''blanks'', ''code'', ''comments'']" for l k
  proof -
    from that have "(l, k) \<in> set (List.product (languages_of lang) [''blanks'', ''code'', ''comments''])"
      by simp
    from sum_loc_Inr [OF loc [unfolded language_loc_def] this] show ?thesis .
  qed
  from languages_of_nonempty [of lang] obtain l0 where "l0 \<in> set (languages_of lang)"
    by (cases "languages_of lang") auto
  from counts [OF this, of "''code''"] obtain tokei where tokei: "getitem data (JStr ''tokei'') = Inr tokei"
    by auto
  have no_counts: "\<not> counts_incomplete tokei l" if "l \<in> set (languages_of lang)" for l
  proof -
    from counts [OF that, of "''blanks''"] tokei obtain st v1 where st: "getitem tokei l = Inr st"
      and v1: "getitem st (JStr ''blanks'') = Inr v1"
      by auto
    from counts [OF that, of "''code''"] tokei st obtain v2 where
      v2: "getitem st (JStr ''code'') = Inr v2"
      by auto
    from counts [OF that, of "''comments''"] tokei st obtain v3 where
      v3: "getitem st (JStr ''comments'') = Inr v3"
      by auto
    from st v1 v2 v3 show ?thesis
      by (simp add: counts_incomplete_def lacks_def)
  qed
  \<comment> \<open>the findings\<close>
  from roles fs obtain s where s: "role_set py [] (List.product fs ROLE_METAVARIABLES) = Inr s"
    by (auto simp: role_count_def and_then_Inr_iff)
  have no_finding: "\<not> finding_incomplete f" if f: "f \<in> set fs" for f
  proof -
    from traverse_Inr_each [OF bs f] obtain c where c: "getitem f (JStr ''check_id'') = Inr c"
      by (auto simp: marker_in_def and_then_Inr_iff)
    have each: "\<exists>mvs b. metavars f = Inr mvs \<and> contains mv mvs = Inr b
          \<and> (b \<longrightarrow> (\<exists>v. abstract_content f mv = Inr v))"
      if "mv \<in> set ROLE_METAVARIABLES" for mv
    proof -
      from f that have "(f, mv) \<in> set (List.product fs ROLE_METAVARIABLES)" by simp
      from role_set_Inr_each [OF s this] show ?thesis .
    qed
    from each [of "''$AUTHZ''"] obtain mvs where mvs: "metavars f = Inr mvs"
      by (auto simp: ROLE_METAVARIABLES_def)
    then obtain extra where extra: "getitem f (JStr ''extra'') = Inr extra"
      and mv: "getitem extra (JStr ''metavars'') = Inr mvs"
      by (auto simp: metavars_def and_then_Inr_iff)
    have "\<not> binding_incomplete mvs m" if m: "m \<in> set ROLE_METAVARIABLES" for m
    proof (cases "getitem mvs (JStr m)")
      case (Inl e)
      then show ?thesis by (simp add: binding_incomplete_def)
    next
      case (Inr b)
      from getitem_contains [OF Inr] each [OF m] mvs obtain v where "abstract_content f m = Inr v"
        by auto
      with mvs Inr have "getitem b (JStr ''abstract_content'') = Inr v"
        by (simp add: abstract_content_def and_then_Inr)
      with Inr show ?thesis by (simp add: binding_incomplete_def lacks_def)
    qed
    with c extra mv show ?thesis
      by (simp add: finding_incomplete_def lacks_def list_ex_iff)
  qed
  from lang tokei semgrep results top fs no_finding no_counts show ?thesis
    by (simp add: missing_field_def lacks_def list_ex_iff)
qed

subsection \<open>The analyzer on the samples\<close>

lemmas io_defs = Let_def io_then_def io_pure_def io_lift_def resolve_strict_def path_exists_def run_cmd_def

lemma missing_clone:
  assumes "get_org_repo py (JStr repository) = Inr (org, repo)"
    and "resolved w (join_path hdir repo) = None"
  shows "analyze_repository py sys hdir odir language framework repository w = (Inl FileNotFoundError, w)"
  using assms by (simp add: analyze_repository_def io_defs)

lemma redash_name:
  "get_org_repo sample_python (JStr ''https://github.com/getredash/redash'') = Inr (''getredash'', ''redash'')"
  by (simp add: get_org_repo_def sample_python_def and_then_def)

lemma cloned_analysis:
  "analyze_repository sample_python sample_system (Path ''harness'') (Path ''output'')
     ''Python'' ''flask'' ''https://github.com/getredash/redash'' cloned_world
   = (Inr (), cloned_world
        \<lparr>invoked :=
           [([''git'', ''rev-parse'', ''HEAD''], Some (Path ''/work/harness/redash'')),
            ([''tokei'', ''--output'', ''json''], Some (Path ''/work/harness/redash'')),
            ([''routes'', ''which'', ''flask''], None),
            ([''touch'', ''/work/harness/redash/.semgrepignore''], None),
            ([''semgrep'', ''--json'', ''--config'', ''/rules/flask.yaml''],
             Some (Path ''/work/harness/redash''))],
         written := [(Path ''output/redash.flask.json'', sample_record)]\<rparr>)"
  by (simp add: analyze_repository_def redash_name io_defs cloned_world_def fresh_world_def
      sample_system_def sample_execute_def strip_def is_space_def sample_record_def record_of_def)

lemma analyses_redash:
  "analyses (Some [''redash'']) = [(''Python'', ''flask'', ''https://github.com/getredash/redash'')]"
  by (simp add: analyses_def harness_entries_def HARNESS_def entry_selected_def JS_TS_LANGUAGE_def)

lemma analyses_all: "analyses None = harness_entries"
  by (simp add: analyses_def entry_selected_def)

lemmas more_defs = gin_record_def chi_record_def go_tokei_def gin_row_def
  chi_row_def

lemma gin_row: "process_data sample_python gin_record = Inr gin_row"
  by (simp add: sample_defs more_defs eval_defs)

lemma chi_row: "process_data sample_python chi_record = Inr chi_row"
  by (simp add: sample_defs more_defs eval_defs)

lemma sample_reorders: "reorders sample_python"
proof -
  have "mset rows = mset (map snd keyed)"
    if "sort_other sample_python keyed = Inr rows" for keyed rows
  proof -
    from that have "rows = map snd (sort_key (\<lambda>kr. the (int_like (fst kr))) keyed)"
      by (simp add: sample_python_def split: if_splits)
    then have "mset rows = image_mset snd (mset keyed)" by simp
    then show ?thesis by simp
  qed
  then show ?thesis by (simp add: reorders_def)
qed

lemma sample_run:
  "process_mode sample_python sample_load None (map fst sample_files)
   = Returned 0 [headers, chi_row, gin_row, sample_row] []"
  by (simp add: process_mode_def select_outputs_def pool_map_def process_output_def
      sample_load_def sample_files_def and_then_Inr gin_row chi_row sample_row
      sort_results_def row_key_def seq_index_def py_add_def is_number_def emit_csv_def
      length_headers gin_row_def chi_row_def sample_row_def)

section \<open>The claims\<close>

subsection \<open>C1: the five category counts\<close>

text \<open>
  C1. For a record that \<open>process_data\<close> turns into a row and whose findings carry
  string identifiers, the fields 6 to 10 of the row (route, authenticated,
  unauthenticated, authorized, unauthorized count) are the decimal numbers of findings
  whose \<^verbatim>\<open>check_id\<close> contains \<^verbatim>\<open>-route\<close>, \<^verbatim>\<open>-authenticated\<close>, \<^verbatim>\<open>-unauthenticated\<close>,
  \<^verbatim>\<open>-authorized\<close> and \<^verbatim>\<open>-unauthorized\<close>, and none of these numbers exceeds the number
  of findings.
\<close>

theorem category_counts:
  assumes "process_data py data = Inr row"
    and "findings data = Inr fs"
    and "list_all string_check_id fs"
  shows "row ! 6 = JStr (str_int (int (marked ''-route'' fs)))
       \<and> row ! 7 = JStr (str_int (int (marked ''-authenticated'' fs)))
       \<and> row ! 8 = JStr (str_int (int (marked ''-unauthenticated'' fs)))
       \<and> row ! 9 = JStr (str_int (int (marked ''-authorized'' fs)))
       \<and> row ! 10 = JStr (str_int (int (marked ''-unauthorized'' fs)))
       \<and> (\<forall>marker. marked marker fs \<le> length fs)"
proof -
  from process_data_Inr [OF assms(1)] obtain lang loc rc ac uc azc uzc roles org repo
    commit_hash framework runtime
    where c: "count_marker ''-route'' data = Inr rc"
      "count_marker ''-authenticated'' data = Inr ac"
      "count_marker ''-unauthenticated'' data = Inr uc"
      "count_marker ''-authorized'' data = Inr azc"
      "count_marker ''-unauthorized'' data = Inr uzc"
    and row: "row = [JStr (org @ ''/'' @ repo), commit_hash, framework, lang,
                JStr (py_str py loc), JStr (py_str py runtime),
                JStr (str_int rc), JStr (str_int ac), JStr (str_int uc),
                JStr (str_int azc), JStr (str_int uzc), JStr (str_int roles)]"
    by blast
  have eq: "count_marker m data = Inr (int (marked m fs))" for m
    using assms(2,3) by (rule count_marker_eq)
  from c have "rc = int (marked ''-route'' fs)" "ac = int (marked ''-authenticated'' fs)"
    "uc = int (marked ''-unauthenticated'' fs)" "azc = int (marked ''-authorized'' fs)"
    "uzc = int (marked ''-unauthorized'' fs)"
    by (simp_all add: eq)
  moreover have "marked marker fs \<le> length fs" for marker
    by (simp add: marked_def)
  ultimately show ?thesis
    by (simp add: row)
qed

theorem category_counts_witness:
  "process_data sample_python sample_record = Inr sample_row
   \<and> findings sample_record = Inr sample_findings
   \<and> list_all string_check_id sample_findings
   \<and> length sample_findings = 5
   \<and> marked ''-route'' sample_findings = 5 \<and> sample_row ! 6 = JStr ''5''
   \<and> marked ''-authenticated'' sample_findings = 1 \<and> sample_row ! 7 = JStr ''1''
   \<and> marked ''-unauthenticated'' sample_findings = 1 \<and> sample_row ! 8 = JStr ''1''
   \<and> marked ''-authorized'' sample_findings = 2 \<and> sample_row ! 9 = JStr ''2''
   \<and> marked ''-unauthorized'' sample_findings = 1 \<and> sample_row ! 10 = JStr ''1''"
proof -
  have ids: "list_all string_check_id sample_findings"
    by (simp add: sample_defs string_check_id_def)
  have m: "marked ''-route'' sample_findings = 5"
    "marked ''-authenticated'' sample_findings = 1"
    "marked ''-unauthenticated'' sample_findings = 1"
    "marked ''-authorized'' sample_findings = 2"
    "marked ''-unauthorized'' sample_findings = 1"
    by (simp_all add: sample_defs marked_def has_marker_def substring_sublist [symmetric])
  have n: "length sample_findings = 5"
    by (simp add: sample_findings_def)
  from category_counts [OF sample_row sample_findings ids] m
  have "sample_row ! 6 = JStr ''5''" "sample_row ! 7 = JStr ''1''" "sample_row ! 8 = JStr ''1''"
    "sample_row ! 9 = JStr ''2''" "sample_row ! 10 = JStr ''1''"
    by (simp_all add: str_int_def str_nat.simps digit_char_def)
  with sample_row sample_findings ids m n show ?thesis
    by simp
qed

subsection \<open>C2: the role count\<close>

text \<open>
  C2. For a record that \<open>process_data\<close> turns into a row and whose role metavariables
  bind text, field 11 of the row (the role count) is the number of elements of the set of
  literal texts bound to \<^verbatim>\<open>$AUTHZ\<close> or \<^verbatim>\<open>$...AUTHZ\<close> in any finding: a literal bound by
  both metavariables of one finding, or in several findings, counts once.
\<close>

theorem role_count_distinct_literals:
  assumes "process_data py data = Inr row"
    and "findings data = Inr fs"
    and "list_all text_roles fs"
  shows "row ! 11 = JStr (str_int (int (card (role_literals fs))))"
proof -
  from process_data_Inr [OF assms(1)] obtain lang loc rc ac uc azc uzc roles org repo
    commit_hash framework runtime
    where r: "role_count py data = Inr roles"
    and row: "row = [JStr (org @ ''/'' @ repo), commit_hash, framework, lang,
                JStr (py_str py loc), JStr (py_str py runtime),
                JStr (str_int rc), JStr (str_int ac), JStr (str_int uc),
                JStr (str_int azc), JStr (str_int uzc), JStr (str_int roles)]"
    by blast
  from role_count_card [OF r assms(2,3)] show ?thesis
    by (simp add: row)
qed

text \<open>
  In the sample, \<^verbatim>\<open>admin\<close> is bound by both metavariables of the first finding and
  again by the second finding, \<^verbatim>\<open>editor\<close> by the fourth: two roles.
\<close>

theorem role_count_distinct_literals_witness:
  "process_data sample_python sample_record = Inr sample_row
   \<and> findings sample_record = Inr sample_findings
   \<and> list_all text_roles sample_findings
   \<and> literals_of (sample_findings ! 0) = [''admin'', ''admin'']
   \<and> literals_of (sample_findings ! 1) = [''admin'']
   \<and> role_literals sample_findings = {''admin'', ''editor''}
   \<and> sample_row ! 11 = JStr ''2''"
proof -
  have texts: "list_all text_roles sample_findings"
    by (simp add: sample_defs text_roles_def text_binding_def eval_defs)
  have lits: "literals_of (sample_findings ! 0) = [''admin'', ''admin'']"
    "literals_of (sample_findings ! 1) = [''admin'']"
    by (simp_all add: sample_defs literals_of_def eval_defs)
  have roles: "role_literals sample_findings = {''admin'', ''editor''}"
    by (simp add: sample_defs role_literals_def literals_of_def eval_defs)
  from role_count_distinct_literals [OF sample_row sample_findings texts]
  have "sample_row ! 11 = JStr ''2''"
    by (simp add: roles str_int_def str_nat.simps digit_char_def)
  with sample_row sample_findings texts lits roles show ?thesis
    by simp
qed

subsection \<open>C3: the worked example\<close>

text \<open>
  The role count reads \<^verbatim>\<open>result["extra"]["metavars"]\<close> of every finding, so the
  example as the specification writes it is never processed into a row.
\<close>

lemma literal_example_never_a_row:
  "process_data py (literal_example full_hash tokei runtime) \<noteq> Inr row"
proof
  assume "process_data py (literal_example full_hash tokei runtime) = Inr row"
  then have "\<not> missing_field (literal_example full_hash tokei runtime)"
    by (rule process_data_complete)
  then show False
    by (simp add: missing_field_def literal_example_def record_of_def findings_def
        and_then_def finding_incomplete_def lacks_def)
qed




subsection \<open>C4: a repository that is not cloned yet\<close>

text \<open>
  C4. The analyzer resolves the target directory strictly (line 204) before it asks
  whether the directory exists (line 206). For a repository that has no clone yet the
  resolution raises FileNotFoundError: nothing is cloned, no command is run, and the
  analysis does not proceed, here for the harness entry of
  \<^verbatim>\<open>https://github.com/getredash/redash\<close> in a fresh harness directory, where
  \<^verbatim>\<open>git clone\<close> would have succeeded.
\<close>

theorem fresh_analysis_raises:
  "analyze_repository sample_python sample_system (Path ''harness'') (Path ''output'')
     ''Python'' ''flask'' ''https://github.com/getredash/redash'' fresh_world
   = (Inl FileNotFoundError, fresh_world)
   \<and> invoked fresh_world = []
   \<and> fst (main sample_python sample_system analyze_redash fresh_world)
       = Raised FileNotFoundError"
proof -
  have "resolved fresh_world (join_path (Path ''harness'') ''redash'') = None"
    by (simp add: fresh_world_def)
  from missing_clone [OF redash_name this]
  have "analyze_repository sample_python sample_system (Path ''harness'') (Path ''output'')
     ''Python'' ''flask'' ''https://github.com/getredash/redash'' fresh_world
   = (Inl FileNotFoundError, fresh_world)" .
  moreover have "fst (main sample_python sample_system analyze_redash fresh_world)
       = Raised FileNotFoundError"
    by (simp add: main_def analyze_redash_def sample_system_def analyses_redash
        missing_clone [OF redash_name] fresh_world_def io_then_def)
  ultimately show ?thesis
    by (simp add: fresh_world_def)
qed

subsection \<open>C5: the repository filter\<close>

text \<open>
  C5. In process mode with \<^verbatim>\<open>--repos redash\<close> and an output directory that holds
  files, the filter of line 313 tests a string against a path object and raises
  TypeError: the run ends with status 1 and no row, where the run without the flag
  emits the rows of all three files.
\<close>

theorem process_filter_raises:
  "fst (main sample_python sample_system process_redash fresh_world) = Raised TypeError
   \<and> exit_status (fst (main sample_python sample_system process_redash fresh_world)) = 1
   \<and> stdout_rows (fst (main sample_python sample_system process_redash fresh_world)) = []
   \<and> fst (main sample_python sample_system (process_redash\<lparr>repos := None\<rparr>) fresh_world)
       = Returned 0 [headers, chi_row, gin_row, sample_row] []"
proof -
  have 1: "fst (main sample_python sample_system process_redash fresh_world) = Raised TypeError"
    by (simp add: main_def process_redash_def sample_system_def process_mode_def
        select_outputs_given sample_files_def)
  from sample_run have 2: "fst (main sample_python sample_system (process_redash\<lparr>repos := None\<rparr>) fresh_world)
       = Returned 0 [headers, chi_row, gin_row, sample_row] []"
    by (simp add: main_def process_redash_def sample_system_def)
  from 1 2 show ?thesis
    by simp
qed

subsection \<open>C6: repository name and short commit hash\<close>

text \<open>
  C6. In every row that \<open>process_data\<close> returns, field 0 is the last two segments of
  the path of the repository URL joined by a slash (the path has exactly three parts
  between slashes, the first of which is dropped), and, the record's commit hash being
  a string, field 1 is its first 7 characters.
\<close>

theorem repository_name_and_short_hash:
  assumes "process_data py data = Inr row"
    and "getitem data (JStr ''hash'') = Inr (JStr full_hash)"
  shows "\<exists>url path first org repo.
           getitem data (JStr ''repository'') = Inr (JStr url)
         \<and> urlparse_path py url = Inr path
         \<and> split_on CHR ''/'' path = [first, org, repo]
         \<and> org = last (butlast (split_on CHR ''/'' path))
         \<and> repo = last (split_on CHR ''/'' path)
         \<and> row ! 0 = JStr (org @ ''/'' @ repo)
         \<and> row ! 1 = JStr (take 7 full_hash)"
proof -
  from process_data_Inr [OF assms(1)] obtain lang loc rc ac uc azc uzc roles repository org repo
    h commit_hash framework runtime
    where repository: "getitem data (JStr ''repository'') = Inr repository"
    and name: "get_org_repo py repository = Inr (org, repo)"
    and h: "getitem data (JStr ''hash'') = Inr h"
    and short: "slice_to SHORT_HASH_LEN h = Inr commit_hash"
    and row: "row = [JStr (org @ ''/'' @ repo), commit_hash, framework, lang,
                JStr (py_str py loc), JStr (py_str py runtime),
                JStr (str_int rc), JStr (str_int ac), JStr (str_int uc),
                JStr (str_int azc), JStr (str_int uzc), JStr (str_int roles)]"
    by blast
  from get_org_repo_Inr [OF name] obtain url path first
    where "repository = JStr url" "urlparse_path py url = Inr path"
      "split_on CHR ''/'' path = [first, org, repo]"
    by blast
  moreover from h short assms(2) have "commit_hash = JStr (take 7 full_hash)"
    by (auto simp: SHORT_HASH_LEN_def)
  ultimately show ?thesis
    using repository by (simp add: row)
qed

theorem repository_name_and_short_hash_witness:
  "process_data sample_python sample_record = Inr sample_row
   \<and> getitem sample_record (JStr ''hash'')
       = Inr (JStr ''9f2c1e7a0b3d4c5e6f708192a3b4c5d6e7f80912'')
   \<and> getitem sample_record (JStr ''repository'')
       = Inr (JStr ''https://github.com/getredash/redash'')
   \<and> urlparse_path sample_python ''https://github.com/getredash/redash''
       = Inr ''/getredash/redash''
   \<and> split_on CHR ''/'' ''/getredash/redash'' = [[], ''getredash'', ''redash'']
   \<and> sample_row ! 0 = JStr ''getredash/redash''
   \<and> sample_row ! 1 = JStr ''9f2c1e7''"
proof -
  have h: "getitem sample_record (JStr ''hash'')
       = Inr (JStr ''9f2c1e7a0b3d4c5e6f708192a3b4c5d6e7f80912'')"
    by (simp add: sample_record_def record_of_def)
  have r: "getitem sample_record (JStr ''repository'')
       = Inr (JStr ''https://github.com/getredash/redash'')"
    by (simp add: sample_record_def record_of_def)
  have u: "urlparse_path sample_python ''https://github.com/getredash/redash''
       = Inr ''/getredash/redash''"
    by (simp add: sample_python_def)
  have s: "split_on CHR ''/'' ''/getredash/redash'' = [[], ''getredash'', ''redash'']"
    by simp
  from repository_name_and_short_hash [OF sample_row h] r u s
  have "sample_row ! 0 = JStr ''getredash/redash''" "sample_row ! 1 = JStr ''9f2c1e7''"
    by simp_all
  with sample_row h r u s show ?thesis
    by simp
qed

subsection \<open>C7: the check of the field counts\<close>

lemma numeric_row: "process_data careless_python numeric_record = Inr numeric_row"
  by (simp add: numeric_record_def numeric_row_def careless_python_def sample_python_def
      eval_defs seq_index_def)

text \<open>
  C7. A run of \<^verbatim>\<open>main\<close> in process mode in which the directories are made, the files
  are selected and processed and the rows are sorted ends as follows. When some sorted
  row has not as many fields as the header, which has 12, the message
  \<^verbatim>\<open>CSV header/row mismatch\<close> is written to standard error, the status is 1 and no row,
  header included, goes to the CSV writer. When every row has as many, the header
  followed by the sorted rows goes to the CSV writer and the status is 0.
\<close>

theorem csv_emission:
  assumes "mkdir sys (Path (harness_dir a)) w0 = (Inr u1, w1)"
    and "mkdir sys (Path (output_dir a)) w1 = (Inr u2, w2)"
    and "\<not> analyze a"
    and "process a"
    and "select_outputs (repos a) (glob_json sys w2 (Path (output_dir a))) = Inr selected"
    and "pool_map (process_output py (load_json sys w2)) selected = Inr results"
    and "sort_results (py :: 'f python) results = Inr sorted_results"
  shows "main py sys a w0 =
           (if list_ex (\<lambda>row. length row \<noteq> length (headers :: 'f json list)) sorted_results
            then Returned 1 [] [''CSV header/row mismatch'']
            else Returned 0 (headers # sorted_results) [], w2)
       \<and> process_mode py (load_json sys w2) (repos a) (glob_json sys w2 (Path (output_dir a))) =
           (if list_ex (\<lambda>row. length row \<noteq> length (headers :: 'f json list)) sorted_results
            then Returned 1 [] [''CSV header/row mismatch'']
            else Returned 0 (headers # sorted_results) [])
       \<and> exit_status (fst (main py sys a w0)) =
           (if list_ex (\<lambda>row. length row \<noteq> length (headers :: 'f json list)) sorted_results
            then 1 else 0)
       \<and> stdout_rows (fst (main py sys a w0)) =
           (if list_ex (\<lambda>row. length row \<noteq> length (headers :: 'f json list)) sorted_results
            then [] else headers # sorted_results)
       \<and> length (headers :: 'f json list) = 12"
proof -
  from assms(5,6,7)
  have p: "process_mode py (load_json sys w2) (repos a) (glob_json sys w2 (Path (output_dir a)))
           = emit_csv sorted_results"
    by (simp add: process_mode_def)
  from assms(1-4)
  have m: "main py sys a w0 =
      (process_mode py (load_json sys w2) (repos a) (glob_json sys w2 (Path (output_dir a))), w2)"
    by (simp add: main_def)
  show ?thesis
    unfolding m p by (simp add: emit_csv_def length_headers)
qed

text \<open>
  The sample run emits the header and three rows. The run of the careless interpreter
  on the numeric record sorts a row of twelve fields into one of eleven and ends in the
  mismatch.
\<close>

theorem csv_emission_witness:
  "fst (main sample_python sample_system process_all fresh_world)
     = Returned 0 [headers, chi_row, gin_row, sample_row] []
   \<and> exit_status (fst (main sample_python sample_system process_all fresh_world)) = 0
   \<and> pool_map (process_output careless_python (\<lambda>p. Inr numeric_record))
        [Path ''output/numbers.json''] = Inr [numeric_row]
   \<and> length numeric_row = 12
   \<and> sort_results careless_python [numeric_row] = Inr [butlast numeric_row]
   \<and> list_ex (\<lambda>row. length row \<noteq> length (headers :: string json list)) [butlast numeric_row]
   \<and> fst (main careless_python numeric_system process_all fresh_world)
     = Returned 1 [] [''CSV header/row mismatch'']
   \<and> exit_status (fst (main careless_python numeric_system process_all fresh_world)) = 1
   \<and> stdout_rows (fst (main careless_python numeric_system process_all fresh_world)) = []"
proof -
  let ?w1 = "snd (mkdir sample_system (Path (harness_dir process_all)) fresh_world)"
  let ?w2 = "snd (mkdir sample_system (Path (output_dir process_all)) ?w1)"
  have d1: "mkdir sample_system (Path (harness_dir process_all)) fresh_world = (Inr (), ?w1)"
    and d2: "mkdir sample_system (Path (output_dir process_all)) ?w1 = (Inr (), ?w2)"
    by (simp_all add: sample_system_def)
  have mode: "\<not> analyze process_all" "process process_all"
    by (simp_all add: process_all_def)
  have sel: "select_outputs (repos process_all)
               (glob_json sample_system ?w2 (Path (output_dir process_all)))
             = Inr (map fst sample_files)"
    by (simp add: select_outputs_def process_all_def sample_system_def)
  have rows: "pool_map (process_output sample_python (load_json sample_system ?w2))
                (map fst sample_files) = Inr [gin_row, chi_row, sample_row]"
    by (simp add: pool_map_def process_output_def sample_system_def sample_load_def
        sample_files_def and_then_Inr gin_row chi_row sample_row)
  have sorted_rows: "sort_results sample_python [gin_row, chi_row, sample_row]
                     = Inr [chi_row, gin_row, sample_row]"
    by (simp add: sort_results_def row_key_def seq_index_def py_add_def is_number_def
        and_then_Inr gin_row_def chi_row_def sample_row_def)
  have widths: "\<not> list_ex (\<lambda>row. length row \<noteq> length (headers :: string json list))
                   [chi_row, gin_row, sample_row]"
    by (simp add: length_headers gin_row_def chi_row_def sample_row_def)
  from csv_emission [OF d1 d2 mode sel rows sorted_rows] widths
  have good: "fst (main sample_python sample_system process_all fresh_world)
     = Returned 0 [headers, chi_row, gin_row, sample_row] []"
    by simp
  let ?v1 = "snd (mkdir numeric_system (Path (harness_dir process_all)) fresh_world)"
  let ?v2 = "snd (mkdir numeric_system (Path (output_dir process_all)) ?v1)"
  have e1: "mkdir numeric_system (Path (harness_dir process_all)) fresh_world = (Inr (), ?v1)"
    and e2: "mkdir numeric_system (Path (output_dir process_all)) ?v1 = (Inr (), ?v2)"
    by (simp_all add: numeric_system_def sample_system_def)
  have sel': "select_outputs (repos process_all)
               (glob_json numeric_system ?v2 (Path (output_dir process_all)))
             = Inr [Path ''output/numbers.json'']"
    by (simp add: select_outputs_def process_all_def numeric_system_def)
  have rows0: "pool_map (process_output careless_python (\<lambda>p. Inr numeric_record))
        [Path ''output/numbers.json''] = Inr [numeric_row]"
    by (simp add: pool_map_def process_output_def and_then_Inr numeric_row)
  then have rows': "pool_map (process_output careless_python (load_json numeric_system ?v2))
                [Path ''output/numbers.json''] = Inr [numeric_row]"
    by (simp add: numeric_system_def)
  have sorted_rows': "sort_results careless_python [numeric_row] = Inr [butlast numeric_row]"
    by (simp add: sort_results_def row_key_def seq_index_def py_add_def and_then_Inr
        numeric_row_def careless_python_def)
  have widths': "list_ex (\<lambda>row. length row \<noteq> length (headers :: string json list))
                   [butlast numeric_row]"
    by (simp add: length_headers numeric_row_def)
  from csv_emission [OF e1 e2 mode sel' rows' sorted_rows'] widths'
  have bad: "fst (main careless_python numeric_system process_all fresh_world)
     = Returned 1 [] [''CSV header/row mismatch'']"
    by simp
  have n: "length numeric_row = 12"
    by (simp add: numeric_row_def)
  from good bad rows0 n sorted_rows' widths' show ?thesis
    by simp
qed

subsection \<open>C8: the order of the rows\<close>

text \<open>
  C8. When process mode returns and the rows it emits carry strings as language and
  framework, the data rows (the rows after the header) are in non-decreasing
  lexicographic order of the single string made of the language followed by the
  framework. It is assumed that the interpreter's sort only reorders rows. In the
  sample run, the row of (Go, chi) comes before the row of (Go, gin) although its file
  comes second: \<^verbatim>\<open>Gochi\<close> is less than \<^verbatim>\<open>Gogin\<close>.
\<close>

theorem rows_sorted_by_concatenation:
  assumes "reorders py"
    and "process_mode py load flt outputs = Returned status rows errs"
    and "list_all string_labels (tl rows)"
  shows "sorted (map language_framework (tl rows))"
proof -
  from process_mode_Returned [OF assms(2)] obtain results sorted_results
    where s: "sort_results py results = Inr sorted_results"
      and e: "emit_csv sorted_results = Returned status rows errs"
    by blast
  from emit_csv_rows [OF e] show ?thesis
  proof
    assume "tl rows = sorted_results"
    with sort_results_sorted [OF s assms(1)] assms(3) show ?thesis by simp
  next
    assume "rows = []"
    then show ?thesis by simp
  qed
qed

theorem rows_sorted_by_concatenation_witness:
  "reorders sample_python
   \<and> process_mode sample_python sample_load None
        [Path ''output/server.gin.json'', Path ''output/go-base.chi.json'']
       = Returned 0 [headers, chi_row, gin_row] []
   \<and> list_all string_labels [chi_row, gin_row]
   \<and> language_framework chi_row = ''Gochi''
   \<and> language_framework gin_row = ''Gogin''
   \<and> (''Gochi'' :: string) < ''Gogin''
   \<and> sorted (map language_framework [chi_row, gin_row])"
proof -
  note r = sample_reorders
  have p: "process_mode sample_python sample_load None
        [Path ''output/server.gin.json'', Path ''output/go-base.chi.json'']
       = Returned 0 [headers, chi_row, gin_row] []"
    by (simp add: process_mode_def select_outputs_def pool_map_def process_output_def
        sample_load_def sample_files_def and_then_Inr gin_row chi_row sort_results_def
        row_key_def seq_index_def py_add_def is_number_def emit_csv_def length_headers
        gin_row_def chi_row_def)
  have l: "list_all string_labels [chi_row, gin_row]"
    by (simp add: string_labels_def gin_row_def chi_row_def)
  have k: "language_framework chi_row = ''Gochi''" "language_framework gin_row = ''Gogin''"
    by (simp_all add: language_framework_def gin_row_def chi_row_def)
  from rows_sorted_by_concatenation [OF r p] l
  have "sorted (map language_framework [chi_row, gin_row])"
    by simp
  with r p l k show ?thesis
    by simp
qed

subsection \<open>C9: a missing field\<close>

text \<open>
  C9. A record that is missing an expected field (a field of the record, the results of
  the scan, line counts of its language, or in a finding the identifier, the \<^verbatim>\<open>extra\<close>
  field, the metavariable container, or the content of a bound role metavariable) is
  not processed into a row: \<open>process_data\<close> raises, so does \<open>process_output\<close> on its file,
  and process mode over any batch that holds the file ends in that exception, with no
  row of any record emitted.
\<close>

theorem missing_field_aborts_batch:
  assumes "missing_field data"
    and "load p = Inr data"
    and "p \<in> set outputs"
  shows "(\<exists>e. process_data py data = Inl e)
       \<and> (\<exists>e. process_output py load p = Inl e)
       \<and> (\<exists>e. process_mode py load flt outputs = Raised e)"
proof -
  from assms(1) process_data_complete [of py data] obtain e where e: "process_data py data = Inl e"
    by (cases "process_data py data") auto
  with assms(2) have o: "process_output py load p = Inl e"
    by (simp add: process_output_def and_then_Inr)
  have "\<exists>e. process_mode py load flt outputs = Raised e"
  proof (cases "select_outputs flt outputs")
    case (Inl e')
    then show ?thesis by (simp add: process_mode_def)
  next
    case (Inr selected)
    with select_outputs_Inr have "select_outputs flt outputs = Inr outputs" by blast
    moreover from traverse_Inl [of p outputs "process_output py load" e, OF assms(3) o] obtain e' where
      "pool_map (process_output py load) outputs = Inl e'"
      by (auto simp: pool_map_def)
    ultimately show ?thesis by (simp add: process_mode_def)
  qed
  with e o show ?thesis by blast
qed

text \<open>
  The second finding of the broken record has no \<^verbatim>\<open>extra\<close> field and binds nothing:
  KeyError, and the batch of four files is lost.
\<close>

theorem missing_field_aborts_batch_witness:
  "missing_field broken_record
   \<and> broken_load (Path ''output/broken.flask.json'') = Inr broken_record
   \<and> Path ''output/broken.flask.json''
       \<in> set (map fst sample_files @ [Path ''output/broken.flask.json''])
   \<and> process_data sample_python broken_record = Inl KeyError
   \<and> (\<exists>e. process_mode sample_python broken_load None
              (map fst sample_files @ [Path ''output/broken.flask.json'']) = Raised e)"
proof -
  have m: "missing_field broken_record"
    by (simp add: missing_field_def broken_record_def record_of_def finding_def lacks_def
        findings_def and_then_def finding_incomplete_def)
  have l: "broken_load (Path ''output/broken.flask.json'') = Inr broken_record"
    by (simp add: broken_load_def)
  have i: "Path ''output/broken.flask.json''
       \<in> set (map fst sample_files @ [Path ''output/broken.flask.json''])"
    by simp
  have k: "process_data sample_python broken_record = Inl KeyError"
    by (simp add: broken_record_def sample_defs eval_defs)
  from m l i
    missing_field_aborts_batch [of broken_record broken_load "Path ''output/broken.flask.json''"
      "map fst sample_files @ [Path ''output/broken.flask.json'']" sample_python None]
  have "\<exists>e. process_mode sample_python broken_load None
              (map fst sample_files @ [Path ''output/broken.flask.json'']) = Raised e"
    by blast
  with m l i k show ?thesis
    by blast
qed

subsection \<open>C10: as many rows as records, each as wide as the header\<close>

text \<open>
  C10. Every row that \<open>process_data\<close> returns has 12 fields, as many as the header. When
  process mode returns, it returns status 0 with nothing on standard error: the
  mismatch branch is not taken; the rows handed to the CSV writer are the header
  followed by as many rows as there were files, each of 12 fields. It is assumed that
  the interpreter's sort only reorders rows.
\<close>

theorem rows_match_header:
  assumes "reorders py"
    and "process_mode py load flt outputs = Returned status rows errs"
  shows "status = 0 \<and> errs = []
       \<and> rows = headers # tl rows
       \<and> length (tl rows) = length outputs
       \<and> list_all (\<lambda>row. length row = length (headers :: 'f json list)) (tl rows)
       \<and> length (headers :: 'f json list) = 12
       \<and> (\<forall>data row. process_data py data = Inr row \<longrightarrow> length row = 12)"
proof -
  from process_mode_Returned [OF assms(2)] obtain results sorted_results
    where p: "pool_map (process_output py load) outputs = Inr results"
      and s: "sort_results py results = Inr sorted_results"
      and e: "emit_csv sorted_results = Returned status rows errs"
    by blast
  from pool_map_rows [OF p] have n: "length results = length outputs"
    and w: "list_all (\<lambda>row. length row = 12) results" by simp_all
  from sort_results_mset [OF s assms(1)] have ms: "mset sorted_results = mset results" .
  from ms have "length sorted_results = length results" by (rule mset_eq_length)
  moreover from ms have "set sorted_results = set results" by (rule mset_eq_setD)
  with w have "list_all (\<lambda>row. length row = 12) sorted_results"
    by (simp add: list_all_iff)
  ultimately show ?thesis
    using e n by (auto simp: emit_csv_def length_headers list_all_iff list_ex_iff
        dest: process_data_length split: if_splits)
qed

theorem rows_match_header_witness:
  "reorders sample_python
   \<and> process_mode sample_python sample_load None (map fst sample_files)
       = Returned 0 [headers, chi_row, gin_row, sample_row] []
   \<and> length (map fst sample_files) = 3
   \<and> length [chi_row, gin_row, sample_row] = 3
   \<and> list_all (\<lambda>row. length row = 12) [chi_row, gin_row, sample_row]"
proof -
  note r = sample_reorders
  note p = sample_run
  from rows_match_header [OF r p]
  have "list_all (\<lambda>row. length row = 12) [chi_row, gin_row, sample_row]"
    by (simp add: length_headers)
  with r p show ?thesis
    by (simp add: sample_files_def)
qed

end
